theory Spec2Isabelle
  imports Complex_Main "HOL-Library.Multiset"
begin

section \<open>The C library, as far as the booking engine uses it\<close>

text \<open>
  The hotel booking system keeps its rooms, bookings and profiles in colon-delimited
  text files and reads them back with \<^verbatim>\<open>fgets\<close> and \<^verbatim>\<open>sscanf\<close>.
  What the program does is therefore decided by how \<^verbatim>\<open>sscanf\<close> splits a line, so the
  embedding keeps the files as text and models the conversions the program uses.

  Conventions of the model:
  \<^item> a C string is a \<open>string\<close> (the characters before the terminating NUL);
  \<^item> \<^verbatim>\<open>int\<close> is \<open>int\<close> (no overflow), \<^verbatim>\<open>float\<close> is \<open>rat\<close> (decimal
    values are exact; the rounding of binary32 is not modelled);
  \<^item> a file is the list of its lines, each without its final newline; \<^verbatim>\<open>fgets\<close>
    hands the line with the newline to \<^verbatim>\<open>sscanf\<close>. Every line is taken to fit the
    line buffer and every field its character array;
  \<^item> a function of the program whose C text reads a local variable that may not have
    been assigned takes the indeterminate contents as a parameter (a record \<open>uninit\<close>);
  \<^item> a run that writes through a null pointer or past the end of an array has no
    result: such functions return \<open>None\<close>.
\<close>

subsection \<open>Character classes and decimal numerals\<close>

definition isdigit :: "char \<Rightarrow> bool" where
  "isdigit c = (48 \<le> (of_char c :: nat) \<and> (of_char c :: nat) \<le> 57)"

definition isspace :: "char \<Rightarrow> bool" where
  "isspace c = (c = CHR '' '' \<or> (9 \<le> (of_char c :: nat) \<and> (of_char c :: nat) \<le> 13))"

definition newline :: char where
  "newline = CHR 0x0A"

definition digit_val :: "char \<Rightarrow> nat" where
  "digit_val c = of_char c - 48"

definition digits_val :: "string \<Rightarrow> nat" where
  "digits_val ds = foldl (\<lambda>a c. 10 * a + digit_val c) 0 ds"

definition digit_chr :: "nat \<Rightarrow> char" where
  "digit_chr d = ''0123456789'' ! d"

fun dec :: "nat \<Rightarrow> string" where
  "dec n = (if n < 10 then [digit_chr n] else dec (n div 10) @ [digit_chr (n mod 10)])"

declare dec.simps [simp del]

subsection \<open>\<^verbatim>\<open>strcmp\<close>, \<^verbatim>\<open>strncmp\<close>, \<^verbatim>\<open>strstr\<close>\<close>

text \<open>\<^verbatim>\<open>strcmp\<close> compares the characters as unsigned bytes; only the sign of its
  result is used by the program, so the model returns \<open>-1\<close>, \<open>0\<close> or \<open>1\<close>.\<close>

fun strcmp :: "string \<Rightarrow> string \<Rightarrow> int" where
  "strcmp [] [] = 0"
| "strcmp [] (y # ys) = -1"
| "strcmp (x # xs) [] = 1"
| "strcmp (x # xs) (y # ys) =
     (if x = y then strcmp xs ys
      else if (of_char x :: nat) < of_char y then -1 else 1)"

definition strncmp :: "string \<Rightarrow> string \<Rightarrow> nat \<Rightarrow> int" where
  "strncmp a b n = strcmp (take n a) (take n b)"

fun starts_with :: "string \<Rightarrow> string \<Rightarrow> bool" where
  "starts_with s [] = True"
| "starts_with [] (y # ys) = False"
| "starts_with (x # xs) (y # ys) = (x = y \<and> starts_with xs ys)"

text \<open>\<^verbatim>\<open>strstr(h, n) != NULL\<close>: \<open>n\<close> occurs in \<open>h\<close>.\<close>

fun strstr :: "string \<Rightarrow> string \<Rightarrow> bool" where
  "strstr [] n = (n = [])"
| "strstr (x # xs) n = (starts_with (x # xs) n \<or> strstr xs n)"

subsection \<open>The conversions of \<^verbatim>\<open>sscanf\<close>\<close>

text \<open>
  A conversion reads a prefix of the input and returns the value with the rest of the
  input, or \<open>None\<close> on a matching failure.
  \<^item> \<^verbatim>\<open>%d\<close> skips white space, takes an optional sign and then one or more digits.
  \<^item> \<^verbatim>\<open>%f\<close> skips white space, takes an optional sign and a decimal numeral with an
    optional fraction. Exponents, hexadecimal numerals, infinities and NaN are outside
    the model: the program writes prices with \<^verbatim>\<open>%.2f\<close> only.
  \<^item> \<^verbatim>\<open>%[^c]\<close> takes one or more characters other than \<open>c\<close>, white space included.
\<close>

text \<open>
  The argument of \<^verbatim>\<open>%d\<close> points to an \<^verbatim>\<open>int\<close> of 32 bits. The standard leaves
  a numeral outside the range of \<^verbatim>\<open>int\<close> undefined; \<open>scanned_int\<close> is what glibc
  stores where \<^verbatim>\<open>long\<close> has 64 bits: \<^verbatim>\<open>strtol\<close> saturates at the bounds of
  \<^verbatim>\<open>long\<close>, and the value is truncated to \<^verbatim>\<open>int\<close>.
\<close>

definition INT_MIN :: int where
  "INT_MIN = - 2147483648"

definition INT_MAX :: int where
  "INT_MAX = 2147483647"

definition LONG_MIN :: int where
  "LONG_MIN = - 9223372036854775808"

definition LONG_MAX :: int where
  "LONG_MAX = 9223372036854775807"

definition scanned_int :: "int \<Rightarrow> int" where
  "scanned_int v =
     (let l = (if v < LONG_MIN then LONG_MIN else if LONG_MAX < v then LONG_MAX else v)
      in (l + 2147483648) mod 4294967296 - 2147483648)"

definition conv_d :: "string \<Rightarrow> (int \<times> string) option" where
  "conv_d s =
     (let s1 = dropWhile isspace s;
          neg = (s1 \<noteq> [] \<and> hd s1 = CHR ''-'');
          s2 = (if s1 \<noteq> [] \<and> (hd s1 = CHR ''-'' \<or> hd s1 = CHR ''+'') then tl s1 else s1);
          ds = takeWhile isdigit s2
      in if ds = [] then None
         else Some (scanned_int (if neg then - int (digits_val ds) else int (digits_val ds)),
                    dropWhile isdigit s2))"

definition conv_f :: "string \<Rightarrow> (rat \<times> string) option" where
  "conv_f s =
     (let s1 = dropWhile isspace s;
          neg = (s1 \<noteq> [] \<and> hd s1 = CHR ''-'');
          s2 = (if s1 \<noteq> [] \<and> (hd s1 = CHR ''-'' \<or> hd s1 = CHR ''+'') then tl s1 else s1);
          ip = takeWhile isdigit s2;
          s3 = dropWhile isdigit s2;
          dot = (s3 \<noteq> [] \<and> hd s3 = CHR ''.'');
          fp = (if dot then takeWhile isdigit (tl s3) else []);
          s4 = (if dot then dropWhile isdigit (tl s3) else s3);
          v = of_nat (digits_val ip) + of_nat (digits_val fp) / 10 ^ length fp
      in if ip = [] \<and> fp = [] then None
         else Some (if neg then - v else v, s4))"

definition conv_scanset :: "char \<Rightarrow> string \<Rightarrow> (string \<times> string) option" where
  "conv_scanset c s =
     (let v = takeWhile (\<lambda>x. x \<noteq> c) s
      in if v = [] then None else Some (v, dropWhile (\<lambda>x. x \<noteq> c) s))"

text \<open>
  A format is a list of directives: a literal character, which must be the next
  character of the input, or a conversion together with the assignment to the variable
  its argument points to. \<^verbatim>\<open>sscanf\<close> runs the directives in order and stops at the
  first that fails; the variables of the directives it did not reach keep the contents
  they had. It returns the number of conversions assigned.
\<close>

datatype 'b directive =
    Lit char
  | Conv "string \<Rightarrow> (('b \<Rightarrow> 'b) \<times> string) option"

definition assign :: "('v \<Rightarrow> 'b \<Rightarrow> 'b) \<Rightarrow> (string \<Rightarrow> ('v \<times> string) option)
    \<Rightarrow> string \<Rightarrow> (('b \<Rightarrow> 'b) \<times> string) option" where
  "assign put conv s = (case conv s of None \<Rightarrow> None | Some (v, r) \<Rightarrow> Some (put v, r))"

fun sscanf :: "'b directive list \<Rightarrow> string \<Rightarrow> 'b \<Rightarrow> nat \<times> 'b" where
  "sscanf [] s b = (0, b)"
| "sscanf (Lit c # ds) s b =
     (case s of [] \<Rightarrow> (0, b) | x # r \<Rightarrow> if x = c then sscanf ds r b else (0, b))"
| "sscanf (Conv f # ds) s b =
     (case f s of
        None \<Rightarrow> (0, b)
      | Some (put, r) \<Rightarrow> (case sscanf ds r (put b) of (n, b') \<Rightarrow> (Suc n, b')))"

subsection \<open>The conversions of \<^verbatim>\<open>sprintf\<close> and \<^verbatim>\<open>fprintf\<close>\<close>

definition fmt_d :: "int \<Rightarrow> string" where
  "fmt_d n = (if n < 0 then CHR ''-'' # dec (nat (- n)) else dec (nat n))"

text \<open>\<^verbatim>\<open>%0wd\<close>: zeros between the sign and the digits up to the width \<open>w\<close>.\<close>

definition fmt_0d :: "nat \<Rightarrow> int \<Rightarrow> string" where
  "fmt_0d w n =
     (let sg = (if n < 0 then ''-'' else ''''); ds = dec (nat \<bar>n\<bar>)
      in sg @ replicate (w - length sg - length ds) CHR ''0'' @ ds)"

text \<open>\<^verbatim>\<open>%.2f\<close>: the value rounded to hundredths, ties to even.\<close>

definition round_half_even :: "rat \<Rightarrow> int" where
  "round_half_even x =
     (let n = \<lfloor>x\<rfloor>; f = x - of_int n
      in if f < 1 / 2 then n else if 1 / 2 < f then n + 1 else if even n then n else n + 1)"

definition fmt_2f :: "rat \<Rightarrow> string" where
  "fmt_2f x =
     (let h = nat (round_half_even (\<bar>x\<bar> * 100))
      in (if x < 0 then ''-'' else '''') @ dec (h div 100) @ ''.''
           @ [digit_chr (h mod 100 div 10), digit_chr (h mod 10)])"

section \<open>Date utilities\<close>

subsection \<open>\<^verbatim>\<open>validate_date\<close> and \<^verbatim>\<open>parse_date\<close>\<close>

text \<open>The format \<^verbatim>\<open>%d-%d-%d\<close> (or with \<^verbatim>\<open>/\<close>), assigning three integers in
  the order of the arguments.\<close>

definition format_ddd :: "char \<Rightarrow> (int \<times> int \<times> int) directive list" where
  "format_ddd sep =
     [Conv (assign (\<lambda>v (a, b, c). (v, b, c)) conv_d), Lit sep,
      Conv (assign (\<lambda>v (a, b, c). (a, v, c)) conv_d), Lit sep,
      Conv (assign (\<lambda>v (a, b, c). (a, b, v)) conv_d)]"

definition validate_date :: "string \<Rightarrow> bool" where
  "validate_date date =
     (case sscanf (format_ddd CHR ''-'') date (0, 0, 0) of
        (n, y, m, d) \<Rightarrow>
          if n \<noteq> 3 then False
          else (y \<ge> 2024 \<and> m \<ge> 1 \<and> m \<le> 12 \<and> d \<ge> 1 \<and> d \<le> 31))"

definition fmt_date :: "int \<Rightarrow> int \<Rightarrow> int \<Rightarrow> string" where
  "fmt_date y m d = fmt_0d 4 y @ ''-'' @ fmt_0d 2 m @ ''-'' @ fmt_0d 2 d"

text \<open>
  \<^verbatim>\<open>parse_date\<close> reads \<open>y\<close>, \<open>m\<close>, \<open>d\<close> only after a scan that assigned all three,
  so the contents they start with never reach the output; the model starts them at 0.
  The second scan assigns in the order \<open>d\<close>, \<open>m\<close>, \<open>y\<close>. The result is the string
  \<^verbatim>\<open>sprintf\<close> or \<^verbatim>\<open>strcpy\<close> writes to \<open>output\<close>; the function does not know
  the capacity of that buffer, which is the caller's.
\<close>

definition parse_date :: "string \<Rightarrow> string" where
  "parse_date input =
     (case sscanf (format_ddd CHR ''-'') input (0, 0, 0) of
        (n, y, m, d) \<Rightarrow>
          if n = 3 then fmt_date y m d
          else (case sscanf (format_ddd CHR ''/'') input (d, m, y) of
                  (n', d', m', y') \<Rightarrow>
                    if n' = 3 then fmt_date y' m' d' else ''invalid''))"

subsection \<open>\<^verbatim>\<open>mktime\<close>\<close>

text \<open>
  \<^verbatim>\<open>mktime\<close> is the C library's: it brings the fields of a broken-down time into
  range and returns the seconds since 1970-01-01. The program sets year, month and day
  and leaves the time of day and the daylight-saving flag at 0. The model is
  \<^verbatim>\<open>mktime\<close> in a zone at a fixed offset from UTC, the offset taken as 0: a month
  outside 0..11 moves the year, a day outside the month moves on by as many days.
\<close>

record tm =
  tm_year :: int
  tm_mon :: int
  tm_mday :: int

definition is_leap :: "int \<Rightarrow> bool" where
  "is_leap y = (y mod 4 = 0 \<and> (y mod 400 = 0 \<or> y mod 100 \<noteq> 0))"

definition days_before_year :: "int \<Rightarrow> int" where
  "days_before_year y =
     365 * (y - 1970) + (y - 1969) div 4 - (y - 1901) div 100 + (y - 1601) div 400"

definition days_before_month :: "int \<Rightarrow> int \<Rightarrow> int" where
  "days_before_month y m =
     [0, 31, 59, 90, 120, 151, 181, 212, 243, 273, 304, 334] ! nat m
       + (if is_leap y \<and> 2 \<le> m then 1 else 0)"

definition day_number :: "tm \<Rightarrow> int" where
  "day_number t =
     (let y = tm_year t + 1900 + tm_mon t div 12; m = tm_mon t mod 12
      in days_before_year y + days_before_month y m + (tm_mday t - 1))"

definition mktime :: "tm \<Rightarrow> int" where
  "mktime t = 86400 * day_number t"

text \<open>The date of a day number, for the fields \<^verbatim>\<open>mktime\<close> leaves in the structure:
  the day number is counted from 0000-03-01 in eras of 400 years; \<open>doe\<close> is the day of
  the era, \<open>yoe\<close> the year of the era, \<open>doy\<close> the day of the year that starts in
  March, \<open>mp\<close> the month counted from March.\<close>

definition era :: "int \<Rightarrow> int" where
  "era n = (n + 719468) div 146097"

definition doe :: "int \<Rightarrow> int" where
  "doe n = (n + 719468) mod 146097"

definition yoe :: "int \<Rightarrow> int" where
  "yoe e = (e - e div 1460 + e div 36524 - e div 146096) div 365"

definition doy :: "int \<Rightarrow> int" where
  "doy e = e - (365 * yoe e + yoe e div 4 - yoe e div 100)"

definition mp :: "int \<Rightarrow> int" where
  "mp e = (5 * doy e + 2) div 153"

definition civil_month :: "int \<Rightarrow> int" where
  "civil_month e = (if mp e < 10 then mp e + 3 else mp e - 9)"

definition civil_day :: "int \<Rightarrow> int" where
  "civil_day e = doy e - (153 * mp e + 2) div 5 + 1"

definition civil_from_days :: "int \<Rightarrow> int \<times> int \<times> int" where
  "civil_from_days n =
     (yoe (doe n) + era n * 400 + (if civil_month (doe n) \<le> 2 then 1 else 0),
      civil_month (doe n), civil_day (doe n))"

text \<open>\<^verbatim>\<open>tm_wday\<close>: 0 is Sunday; 1970-01-01 was a Thursday.\<close>

definition wday :: "int \<Rightarrow> int" where
  "wday n = (n + 4) mod 7"

text \<open>\<^verbatim>\<open>strftime\<close> with \<^verbatim>\<open>%Y-%m-%d\<close> on the date of a day number.\<close>

definition strftime_ymd :: "int \<Rightarrow> string" where
  "strftime_ymd n =
     (case civil_from_days n of (y, m, d) \<Rightarrow> fmt_d y @ ''-'' @ fmt_0d 2 m @ ''-'' @ fmt_0d 2 d)"

text \<open>C's integer division truncates towards zero.\<close>

definition c_div :: "int \<Rightarrow> int \<Rightarrow> int" where
  "c_div a b = sgn a * sgn b * (\<bar>a\<bar> div \<bar>b\<bar>)"

subsection \<open>\<^verbatim>\<open>calculate_duration\<close>, \<^verbatim>\<open>is_date_in_future\<close>, \<^verbatim>\<open>get_week_range\<close>\<close>

text \<open>The two structures start zeroed (\<^verbatim>\<open>struct tm tm1 = {0}\<close>); the result of
  \<^verbatim>\<open>sscanf\<close> is not checked.\<close>

definition scan_tm :: "string \<Rightarrow> int \<times> int \<times> int \<Rightarrow> tm" where
  "scan_tm date v =
     (case sscanf (format_ddd CHR ''-'') date v of
        (n, y, m, d) \<Rightarrow> \<lparr>tm_year = y - 1900, tm_mon = m - 1, tm_mday = d\<rparr>)"

definition calculate_duration :: "string \<Rightarrow> string \<Rightarrow> int" where
  "calculate_duration check_in check_out =
     (let t1 = mktime (scan_tm check_in (0, 0, 0));
          t2 = mktime (scan_tm check_out (0, 0, 0))
      in c_div (t2 - t1) (60 * 60 * 24))"

text \<open>The environment: \<^verbatim>\<open>time(NULL)\<close>, and the local date and time of
  it as \<^verbatim>\<open>strftime\<close> prints them with \<^verbatim>\<open>%Y-%m-%d\<close> and
  \<^verbatim>\<open>%Y-%m-%d %H:%M:%S\<close>.\<close>

record clock =
  time_now :: int
  today :: string
  timestamp :: string

definition is_date_in_future :: "clock \<Rightarrow> string \<Rightarrow> bool" where
  "is_date_in_future clk date = (strcmp date (today clk) \<ge> 0)"

text \<open>\<^verbatim>\<open>get_week_range\<close>: \<open>year\<close>, \<open>month\<close> and \<open>day\<close> are not initialised and the
  result of \<^verbatim>\<open>sscanf\<close> is not checked; \<open>v\<close> is what they hold before the scan.\<close>

definition get_week_range :: "int \<times> int \<times> int \<Rightarrow> string \<Rightarrow> string \<times> string" where
  "get_week_range v date =
     (let n = day_number (scan_tm date v);
          days_to_monday = (if wday n = 0 then - 6 else 1 - wday n);
          monday = n + days_to_monday;
          sunday = monday + 6
      in (strftime_ymd monday, strftime_ymd sunday))"

section \<open>The data model\<close>

record Room =
  room_number :: int
  type :: string
  price :: rat
  status :: string
  facilities :: string

record RoomFilter =
  min_price :: rat
  max_price :: rat
  type :: string
  facilities :: string

record Booking =
  booking_id :: int
  room_number :: int
  username :: string
  booking_date :: string
  check_in_date :: string
  check_out_date :: string
  total_price :: rat
  status :: string

text \<open>A file that cannot be opened for reading is \<open>None\<close>.\<close>

type_synonym text_file = "string list option"

record store =
  room_file :: text_file
  booking_file :: text_file
  profile_file :: text_file

definition MAX_ROOMS :: nat where
  "MAX_ROOMS = 100"

definition MAX_BOOKINGS :: nat where
  "MAX_BOOKINGS = 100"

text \<open>The buffers \<^verbatim>\<open>get_user_profile\<close> scans into, as \<^verbatim>\<open>on_book_room_clicked\<close>
  calls it: \<open>full_name\<close> and \<open>id_number\<close> are the caller's arrays, and the pointers
  for email, address and phone are \<^verbatim>\<open>NULL\<close>. \<open>null_write\<close> records a store through
  one of them.\<close>

record profile_bufs =
  current_username :: string
  full_name :: string
  id_number :: string
  null_write :: bool

text \<open>The indeterminate contents of the local variables the program reads without
  having assigned them: the scan variables of the loops over the booking file, the
  elements of the arrays \<open>bookings\<close> and \<open>rooms\<close>, the \<open>room\<close> of a loop over the room
  file, the profile buffers, and the integers of \<^verbatim>\<open>get_week_range\<close>.\<close>

record uninit =
  u_booking :: Booking
  u_bookings :: "nat \<Rightarrow> Booking"
  u_room :: Room
  u_rooms :: "nat \<Rightarrow> Room"
  u_profile :: profile_bufs
  u_ymd :: "int \<times> int \<times> int"

subsection \<open>The line formats\<close>

text \<open>\<^verbatim>\<open>"%[^:]:%d:%[^:]:%[^:]:%[^:]:%f:%[^:]:%d"\<close>, into username, room number,
  booking date, check-in date, check-out date, total price, status, booking id.\<close>

definition booking_format :: "Booking directive list" where
  "booking_format =
     [Conv (assign (\<lambda>v b. b\<lparr>username := v\<rparr>) (conv_scanset CHR '':'')), Lit CHR '':'',
      Conv (assign (\<lambda>v b. b\<lparr>Booking.room_number := v\<rparr>) conv_d), Lit CHR '':'',
      Conv (assign (\<lambda>v b. b\<lparr>booking_date := v\<rparr>) (conv_scanset CHR '':'')), Lit CHR '':'',
      Conv (assign (\<lambda>v b. b\<lparr>check_in_date := v\<rparr>) (conv_scanset CHR '':'')), Lit CHR '':'',
      Conv (assign (\<lambda>v b. b\<lparr>check_out_date := v\<rparr>) (conv_scanset CHR '':'')), Lit CHR '':'',
      Conv (assign (\<lambda>v b. b\<lparr>total_price := v\<rparr>) conv_f), Lit CHR '':'',
      Conv (assign (\<lambda>v b. b\<lparr>Booking.status := v\<rparr>) (conv_scanset CHR '':'')), Lit CHR '':'',
      Conv (assign (\<lambda>v b. b\<lparr>booking_id := v\<rparr>) conv_d)]"

definition scan_booking :: "string \<Rightarrow> Booking \<Rightarrow> Booking" where
  "scan_booking line b = snd (sscanf booking_format (line @ [newline]) b)"

text \<open>\<^verbatim>\<open>"%s:%d:%s:%s:%s:%.2f:%s:%d\n"\<close>\<close>

definition print_booking :: "Booking \<Rightarrow> string" where
  "print_booking b =
     username b @ '':'' @ fmt_d (Booking.room_number b) @ '':'' @ booking_date b @ '':''
       @ check_in_date b @ '':'' @ check_out_date b @ '':'' @ fmt_2f (total_price b) @ '':''
       @ Booking.status b @ '':'' @ fmt_d (booking_id b)"

text \<open>\<^verbatim>\<open>"%d:%[^:]:%f:%[^:]:%[^\n]"\<close>\<close>

definition room_format :: "Room directive list" where
  "room_format =
     [Conv (assign (\<lambda>v r. r\<lparr>Room.room_number := v\<rparr>) conv_d), Lit CHR '':'',
      Conv (assign (\<lambda>v r. r\<lparr>Room.type := v\<rparr>) (conv_scanset CHR '':'')), Lit CHR '':'',
      Conv (assign (\<lambda>v r. r\<lparr>price := v\<rparr>) conv_f), Lit CHR '':'',
      Conv (assign (\<lambda>v r. r\<lparr>Room.status := v\<rparr>) (conv_scanset CHR '':'')), Lit CHR '':'',
      Conv (assign (\<lambda>v r. r\<lparr>Room.facilities := v\<rparr>) (conv_scanset newline))]"

definition scan_room :: "string \<Rightarrow> Room \<Rightarrow> Room" where
  "scan_room line r = snd (sscanf room_format (line @ [newline]) r)"

text \<open>\<^verbatim>\<open>"%d:%s:%.2f:%s:%s\n"\<close>\<close>

definition print_room :: "Room \<Rightarrow> string" where
  "print_room r =
     fmt_d (Room.room_number r) @ '':'' @ Room.type r @ '':'' @ fmt_2f (price r) @ '':''
       @ Room.status r @ '':'' @ Room.facilities r"

text \<open>\<^verbatim>\<open>"%[^:]:%[^:]:%[^:]:%[^:]:%[^:]:%[^\n]"\<close> with the last three arguments
  \<^verbatim>\<open>NULL\<close>.\<close>

definition profile_format :: "profile_bufs directive list" where
  "profile_format =
     [Conv (assign (\<lambda>v p. p\<lparr>current_username := v\<rparr>) (conv_scanset CHR '':'')), Lit CHR '':'',
      Conv (assign (\<lambda>v p. p\<lparr>full_name := v\<rparr>) (conv_scanset CHR '':'')), Lit CHR '':'',
      Conv (assign (\<lambda>v p. p\<lparr>id_number := v\<rparr>) (conv_scanset CHR '':'')), Lit CHR '':'',
      Conv (assign (\<lambda>v p. p\<lparr>null_write := True\<rparr>) (conv_scanset CHR '':'')), Lit CHR '':'',
      Conv (assign (\<lambda>v p. p\<lparr>null_write := True\<rparr>) (conv_scanset CHR '':'')), Lit CHR '':'',
      Conv (assign (\<lambda>v p. p\<lparr>null_write := True\<rparr>) (conv_scanset newline))]"

definition scan_profile :: "string \<Rightarrow> profile_bufs \<Rightarrow> profile_bufs" where
  "scan_profile line p = snd (sscanf profile_format (line @ [newline]) p)"

section \<open>Validation: \<^verbatim>\<open>is_room_available\<close>\<close>

text \<open>The scan variables are declared before the loop and not initialised: a line that
  \<^verbatim>\<open>sscanf\<close> reads only in part leaves the other variables as the line before left
  them, and the first line finds them as \<open>u_booking\<close>.\<close>

fun available_loop :: "int \<Rightarrow> string \<Rightarrow> string \<Rightarrow> string list \<Rightarrow> Booking \<Rightarrow> bool" where
  "available_loop room check_in check_out [] b = True"
| "available_loop room check_in check_out (line # lines) b =
     (let b' = scan_booking line b
      in if Booking.room_number b' = room \<and> strcmp (Booking.status b') ''active'' = 0
         then (if \<not> (strcmp check_out (check_in_date b') \<le> 0
                      \<or> strcmp check_in (check_out_date b') \<ge> 0)
               then False
               else available_loop room check_in check_out lines b')
         else available_loop room check_in check_out lines b')"

definition is_room_available :: "uninit \<Rightarrow> store \<Rightarrow> int \<Rightarrow> string \<Rightarrow> string \<Rightarrow> bool" where
  "is_room_available u s room check_in check_out =
     (case booking_file s of
        None \<Rightarrow> True
      | Some lines \<Rightarrow> available_loop room check_in check_out lines (u_booking u))"

section \<open>Booking operations: revenue\<close>

fun daily_loop :: "string \<Rightarrow> string list \<Rightarrow> Booking \<Rightarrow> rat \<Rightarrow> rat" where
  "daily_loop date [] b revenue = revenue"
| "daily_loop date (line # lines) b revenue =
     (let b' = scan_booking line b
      in daily_loop date lines b'
           (if strncmp (booking_date b') date 10 = 0 \<and> strcmp (Booking.status b') ''active'' = 0
            then revenue + total_price b' else revenue))"

definition calculate_daily_revenue :: "uninit \<Rightarrow> store \<Rightarrow> string \<Rightarrow> rat" where
  "calculate_daily_revenue u s date =
     (case booking_file s of
        None \<Rightarrow> 0
      | Some lines \<Rightarrow> daily_loop date lines (u_booking u) 0)"

fun weekly_loop :: "string \<Rightarrow> string \<Rightarrow> string list \<Rightarrow> Booking \<Rightarrow> rat \<Rightarrow> rat" where
  "weekly_loop start_date end_date [] b revenue = revenue"
| "weekly_loop start_date end_date (line # lines) b revenue =
     (let b' = scan_booking line b;
          booking_date_only = take 10 (booking_date b')
      in weekly_loop start_date end_date lines b'
           (if strcmp booking_date_only start_date \<ge> 0
               \<and> strcmp booking_date_only end_date \<le> 0
               \<and> strcmp (Booking.status b') ''active'' = 0
            then revenue + total_price b' else revenue))"

definition calculate_weekly_revenue :: "uninit \<Rightarrow> store \<Rightarrow> string \<Rightarrow> rat" where
  "calculate_weekly_revenue u s date =
     (case get_week_range (u_ymd u) date of
        (start_date, end_date) \<Rightarrow>
          (case booking_file s of
             None \<Rightarrow> 0
           | Some lines \<Rightarrow> weekly_loop start_date end_date lines (u_booking u) 0))"

section \<open>File operations: \<^verbatim>\<open>get_user_profile\<close>\<close>

text \<open>
  As \<^verbatim>\<open>on_book_room_clicked\<close> calls it, with \<^verbatim>\<open>NULL\<close> for email, address and
  phone. When the file cannot be opened, and when no line carries the user name, the
  function runs \<^verbatim>\<open>strcpy(email, "")\<close>, a store through the null pointer; so does
  \<^verbatim>\<open>sscanf\<close> on a line whose fourth field is not empty. It returns normally only
  from inside the loop, at the first line whose first field is the user name.
\<close>

fun profile_loop :: "string \<Rightarrow> string list \<Rightarrow> profile_bufs \<Rightarrow> profile_bufs option" where
  "profile_loop user [] p = None"
| "profile_loop user (line # lines) p =
     (let p' = scan_profile line p
      in if null_write p' then None
         else if strcmp user (current_username p') = 0 then Some p'
         else profile_loop user lines p')"

definition get_user_profile :: "text_file \<Rightarrow> string \<Rightarrow> profile_bufs \<Rightarrow> profile_bufs option" where
  "get_user_profile f user p =
     (case f of
        None \<Rightarrow> None
      | Some lines \<Rightarrow> profile_loop user lines (p\<lparr>null_write := False\<rparr>))"

section \<open>Room listing: \<^verbatim>\<open>load_rooms_into_store\<close>\<close>

definition compare_rooms_by_price :: "Room \<Rightarrow> Room \<Rightarrow> int" where
  "compare_rooms_by_price room_a room_b =
     (if price room_a < price room_b then - 1
      else if price room_a > price room_b then 1
      else 0)"

definition passes_filter :: "RoomFilter option \<Rightarrow> Room \<Rightarrow> bool" where
  "passes_filter filter_opt room =
     (case filter_opt of
        None \<Rightarrow> True
      | Some flt \<Rightarrow>
          if min_price flt > 0 \<and> price room < min_price flt then False
          else if max_price flt > 0 \<and> price room > max_price flt then False
          else if length (RoomFilter.type flt) > 0
                  \<and> strcmp (Room.type room) (RoomFilter.type flt) \<noteq> 0 then False
          else if length (RoomFilter.facilities flt) > 0
                  \<and> \<not> strstr (Room.facilities room) (RoomFilter.facilities flt) then False
          else True)"

text \<open>The loop \<^verbatim>\<open>while (fgets(...) && room_count < MAX_ROOMS)\<close>. The variable
  \<open>room\<close> is declared in the body, so each line scans into indeterminate contents
  (\<open>u i\<close> for line \<open>i\<close>).\<close>

fun read_rooms_filtered ::
    "(nat \<Rightarrow> Room) \<Rightarrow> RoomFilter option \<Rightarrow> nat \<Rightarrow> string list \<Rightarrow> Room list \<Rightarrow> Room list" where
  "read_rooms_filtered u flt i [] rooms = rooms"
| "read_rooms_filtered u flt i (line # lines) rooms =
     (if length rooms < MAX_ROOMS
      then (let room = scan_room line (u i)
            in if passes_filter flt room
               then read_rooms_filtered u flt (Suc i) lines (rooms @ [room])
               else read_rooms_filtered u flt (Suc i) lines rooms)
      else rooms)"

text \<open>\<^verbatim>\<open>qsort\<close> is the C library's; the program passes it the array and
  \<^verbatim>\<open>compare_rooms_by_price\<close>. The model takes the routine as a parameter. The C
  standard promises that the result is the same elements in an order in which the
  comparison function never returns a positive number for an element and a later one;
  the order of elements that compare equal is unspecified.\<close>

type_synonym 'a sorter = "('a \<Rightarrow> 'a \<Rightarrow> int) \<Rightarrow> 'a list \<Rightarrow> 'a list"

definition load_rooms_into_store ::
    "Room sorter \<Rightarrow> uninit \<Rightarrow> store \<Rightarrow> RoomFilter option \<Rightarrow> Room list" where
  "load_rooms_into_store qsort u s flt =
     (case room_file s of
        None \<Rightarrow> []
      | Some lines \<Rightarrow>
          qsort compare_rooms_by_price (read_rooms_filtered (u_rooms u) flt 0 lines []))"

section \<open>The booking engine: \<^verbatim>\<open>on_book_room_clicked\<close>, \<^verbatim>\<open>on_cancel_booking_clicked\<close>\<close>

text \<open>
  The callbacks report through a status message. The messages, under the names of the
  specification's error taxonomy:
  \<^item> \<open>LoginRequired\<close>: ``Please login first to book a room.''
  \<^item> \<open>NoRoomSelected\<close>: ``Please select a room to book.''
  \<^item> \<open>InvalidDateFormat\<close>: ``Invalid date format. Use YYYY-MM-DD or DD/MM/YYYY.''
  \<^item> \<open>CheckoutNotAfterCheckin\<close>: ``Check-out date must be after check-in.''
  \<^item> \<open>CheckinInPast\<close>: ``Check-in date must be today or in the future.''
  \<^item> \<open>RoomUnavailable\<close>: ``Room is already booked for those dates.''
  \<^item> \<open>ProfileIncomplete\<close>: ``Please complete your profile before booking.''
  \<^item> \<open>StorageUnavailable\<close>: ``Error updating room status.'', ``Error opening booking
    file.'', ``Error opening room file.''
  \<^item> \<open>NoBookingSelected\<close>: ``Please select a booking to cancel.''

  Opening a file for writing or appending is taken to succeed (it creates the file).

  \<^verbatim>\<open>on_book_room_clicked\<close> has \<^verbatim>\<open>parse_date\<close> write into the arrays
  \<^verbatim>\<open>char formatted_in[20], formatted_out[20]\<close>: a normal form of more than 19
  characters overruns them, and the run has no result.
\<close>

datatype error =
    LoginRequired
  | NoRoomSelected
  | InvalidDateFormat
  | CheckoutNotAfterCheckin
  | CheckinInPast
  | RoomUnavailable
  | ProfileIncomplete
  | StorageUnavailable
  | NoBookingSelected

text \<open>``Booking confirmed! ID: %d, Total: $%.2f for %d nights.''\<close>

record confirmation =
  conf_id :: int
  conf_total :: rat
  conf_nights :: int

definition c_mod :: "int \<Rightarrow> int \<Rightarrow> int" where
  "c_mod a b = a - b * c_div a b"

text \<open>The search for the room's price: \<open>room\<close> is declared before the loop.\<close>

fun price_loop :: "int \<Rightarrow> int \<Rightarrow> string list \<Rightarrow> Room \<Rightarrow> rat" where
  "price_loop room_no nights [] room = 0"
| "price_loop room_no nights (line # lines) room =
     (let room' = scan_room line room
      in if Room.room_number room' = room_no then price room' * of_int nights
         else price_loop room_no nights lines room')"

text \<open>Reading the room file into the array \<open>rooms\<close>, whose elements are not
  initialised; \<open>mark\<close> is what the loop does to the element it has just read.\<close>

fun read_rooms :: "(nat \<Rightarrow> Room) \<Rightarrow> (Room \<Rightarrow> Room) \<Rightarrow> nat \<Rightarrow> string list \<Rightarrow> Room list" where
  "read_rooms u mark room_count [] = []"
| "read_rooms u mark room_count (line # lines) =
     mark (scan_room line (u room_count)) # read_rooms u mark (Suc room_count) lines"

definition set_room_status :: "int \<Rightarrow> string \<Rightarrow> Room \<Rightarrow> Room" where
  "set_room_status room_no st room =
     (if Room.room_number room = room_no then room\<lparr>Room.status := st\<rparr> else room)"

definition on_book_room_clicked ::
    "uninit \<Rightarrow> clock \<Rightarrow> string \<Rightarrow> int option \<Rightarrow> string \<Rightarrow> string \<Rightarrow> store
      \<Rightarrow> ((error + confirmation) \<times> store) option" where
  "on_book_room_clicked u clk current_user selection checkin checkout s =
     (if length current_user = 0 then Some (Inl LoginRequired, s)
      else case selection of
        None \<Rightarrow> Some (Inl NoRoomSelected, s)
      | Some room_no \<Rightarrow>
         (let formatted_in = parse_date checkin;
              formatted_out = parse_date checkout
          in if length formatted_in > 19 \<or> length formatted_out > 19 then None
             else if strcmp formatted_in ''invalid'' = 0 \<or> strcmp formatted_out ''invalid'' = 0
             then Some (Inl InvalidDateFormat, s)
             else if strcmp formatted_in formatted_out \<ge> 0
             then Some (Inl CheckoutNotAfterCheckin, s)
             else if \<not> is_date_in_future clk formatted_in
             then Some (Inl CheckinInPast, s)
             else if \<not> is_room_available u s room_no formatted_in formatted_out
             then Some (Inl RoomUnavailable, s)
             else (case get_user_profile (profile_file s) current_user (u_profile u) of
                None \<Rightarrow> None
              | Some p \<Rightarrow>
                 if length (full_name p) = 0 \<or> length (id_number p) = 0
                 then Some (Inl ProfileIncomplete, s)
                 else
                  (let nights = calculate_duration formatted_in formatted_out;
                       price = (case room_file s of
                                  None \<Rightarrow> 0
                                | Some lines \<Rightarrow> price_loop room_no nights lines (u_room u));
                       booking_id = c_mod (time_now clk) 1000000;
                       line = print_booking
                                \<lparr>booking_id = booking_id, room_number = room_no,
                                 username = current_user, booking_date = timestamp clk,
                                 check_in_date = formatted_in, check_out_date = formatted_out,
                                 total_price = price, status = ''active''\<rparr>;
                       s1 = s\<lparr>booking_file :=
                                 Some (case booking_file s of
                                         None \<Rightarrow> [line]
                                       | Some lines \<Rightarrow> lines @ [line])\<rparr>
                   in case room_file s of
                        None \<Rightarrow> Some (Inl StorageUnavailable, s1)
                      | Some lines \<Rightarrow>
                          if length lines > MAX_ROOMS then None
                          else Some
                            (Inr \<lparr>conf_id = booking_id, conf_total = price, conf_nights = nights\<rparr>,
                             s1\<lparr>room_file :=
                                  Some (map print_room
                                          (read_rooms (u_rooms u)
                                             (set_room_status room_no ''Booked'') 0 lines))\<rparr>)))))"

text \<open>The loop over the booking file of \<^verbatim>\<open>on_cancel_booking_clicked\<close>: each line is
  scanned into the next element of the array \<open>bookings\<close>, whose elements are not
  initialised; \<open>cnt\<close> is the program's \<open>count\<close>.\<close>

fun read_bookings :: "(nat \<Rightarrow> Booking) \<Rightarrow> int \<Rightarrow> nat \<Rightarrow> string list \<Rightarrow> Booking list" where
  "read_bookings u bid cnt [] = []"
| "read_bookings u bid cnt (line # lines) =
     (let b = scan_booking line (u cnt)
      in (if booking_id b = bid then b\<lparr>Booking.status := ''canceled''\<rparr> else b)
           # read_bookings u bid (Suc cnt) lines)"

text \<open>The search for the room of the cancelled booking; \<open>-1\<close> when no element has the id.\<close>

fun find_room_number :: "int \<Rightarrow> Booking list \<Rightarrow> int" where
  "find_room_number bid [] = - 1"
| "find_room_number bid (b # bs) =
     (if booking_id b = bid then Booking.room_number b else find_room_number bid bs)"

definition on_cancel_booking_clicked ::
    "uninit \<Rightarrow> int option \<Rightarrow> store \<Rightarrow> ((error + int) \<times> store) option" where
  "on_cancel_booking_clicked u selection s =
     (case selection of
        None \<Rightarrow> Some (Inl NoBookingSelected, s)
      | Some bid \<Rightarrow>
         (case booking_file s of
            None \<Rightarrow> Some (Inl StorageUnavailable, s)
          | Some lines \<Rightarrow>
             if length lines > MAX_BOOKINGS then None
             else
              (let bookings = read_bookings (u_bookings u) bid 0 lines;
                   s1 = s\<lparr>booking_file := Some (map print_booking bookings)\<rparr>
               in case room_file s of
                    None \<Rightarrow> Some (Inl StorageUnavailable, s1)
                  | Some room_lines \<Rightarrow>
                     if length room_lines > MAX_ROOMS then None
                     else
                      (let rooms = read_rooms (u_rooms u) (\<lambda>r. r) 0 room_lines;
                           room_no = find_room_number bid bookings
                       in if room_no \<noteq> - 1
                          then Some (Inr bid,
                                 s1\<lparr>room_file :=
                                      Some (map (\<lambda>r. print_room
                                                   (set_room_status room_no ''Available'' r))
                                              rooms)\<rparr>)
                          else Some (Inr bid, s1)))))"

section \<open>Sample states\<close>

text \<open>Memory that happens to be zeroed.\<close>

definition zero_booking :: Booking where
  "zero_booking =
     \<lparr>booking_id = 0, room_number = 0, username = '''', booking_date = '''',
      check_in_date = '''', check_out_date = '''', total_price = 0, status = ''''\<rparr>"

definition zero_room :: Room where
  "zero_room =
     \<lparr>Room.room_number = 0, Room.type = '''', price = 0, Room.status = '''',
      Room.facilities = ''''\<rparr>"

definition zero_profile :: profile_bufs where
  "zero_profile =
     \<lparr>current_username = '''', full_name = '''', id_number = '''', null_write = False\<rparr>"

definition zeroed :: uninit where
  "zeroed =
     \<lparr>u_booking = zero_booking, u_bookings = (\<lambda>i. zero_booking), u_room = zero_room,
      u_rooms = (\<lambda>i. zero_room), u_profile = zero_profile, u_ymd = (0, 0, 0)\<rparr>"

text \<open>The room file \<^verbatim>\<open>initialize_files\<close> writes on the first run.\<close>

definition seed_rooms :: "string list" where
  "seed_rooms =
     [''101:Single:100.00:Available:WiFi,TV,AC'',
      ''102:Double:150.00:Available:WiFi,TV,AC,Meal Service'',
      ''103:Suite:300.00:Available:WiFi,TV,AC,Meal Service,Jacuzzi'',
      ''104:Single:120.00:Available:WiFi,TV,AC,Balcony'',
      ''105:Double:180.00:Available:WiFi,TV,AC,Meal Service,Balcony'']"

text \<open>Two profiles as \<^verbatim>\<open>save_user_profile\<close> writes them
  (\<^verbatim>\<open>"%s:%s:%s:%s:%s:%s\n"\<close>), the email left empty in the dialog.\<close>

definition two_profiles :: "string list" where
  "two_profiles =
     [''alice:Alice A:ID1::12 Main St:5551234567'',
      ''bob:Bob B:ID2::1 High St:5559876543'']"

definition s_init :: store where
  "s_init =
     \<lparr>room_file = Some seed_rooms, booking_file = Some [], profile_file = Some two_profiles\<rparr>"

definition clk_alice :: clock where
  "clk_alice =
     \<lparr>time_now = 1748772000, today = ''2025-05-30'', timestamp = ''2025-05-30 10:00:00''\<rparr>"

definition clk_bob :: clock where
  "clk_bob =
     \<lparr>time_now = 1748775600, today = ''2025-05-30'', timestamp = ''2025-05-30 11:00:00''\<rparr>"

definition alice_line :: string where
  "alice_line = ''alice:101:2025-05-30 10:00:00:2025-06-01:2025-06-03:200.00:active:772000''"

definition bob_line :: string where
  "bob_line = ''bob:101:2025-05-30 11:00:00:2025-06-02:2025-06-04:200.00:active:775600''"

definition rooms_101_booked :: "string list" where
  "rooms_101_booked = ''101:Single:100.00:Booked:WiFi,TV,AC'' # tl seed_rooms"

definition s_alice :: store where
  "s_alice =
     \<lparr>room_file = Some rooms_101_booked, booking_file = Some [alice_line],
      profile_file = Some two_profiles\<rparr>"

definition s_alice_bob :: store where
  "s_alice_bob =
     \<lparr>room_file = Some rooms_101_booked, booking_file = Some [alice_line, bob_line],
      profile_file = Some two_profiles\<rparr>"

text \<open>The store after alice has booked room 101 from the 40th to the 41st day of the
  13th month of 2025.\<close>

definition s_month13 :: store where
  "s_month13 =
     \<lparr>room_file = Some rooms_101_booked,
      booking_file =
        Some [''alice:101:2025-05-30 10:00:00:2025-13-40:2025-13-41:100.00:active:772000''],
      profile_file = Some two_profiles\<rparr>"

text \<open>The bookings of the specification's revenue example: 100 dollars, active, booked on
  2025-06-02 at 10:00:00; 50 dollars, canceled, booked on 2025-06-03 at 09:00:00.\<close>

definition revenue_lines :: "string list" where
  "revenue_lines =
     [''alice:101:2025-06-02 10:00:00:2025-06-10:2025-06-11:100.00:active:1001'',
      ''bob:102:2025-06-03 09:00:00:2025-06-12:2025-06-13:50.00:canceled:1002'']"

definition s_revenue :: store where
  "s_revenue =
     \<lparr>room_file = Some seed_rooms, booking_file = Some revenue_lines,
      profile_file = Some two_profiles\<rparr>"

section \<open>Notions of the specification\<close>

subsection \<open>The shapes of a date\<close>

text \<open>
  A decimal numeral of the integer \<open>n\<close>, as the specification's ``three integers''
  are written: optional white space, an optional sign, one or more digits.
\<close>

definition int_numeral :: "string \<Rightarrow> int \<Rightarrow> bool" where
  "int_numeral a n =
     (\<exists>ws sg ds. a = ws @ sg @ ds \<and> list_all isspace ws \<and> sg \<in> {[], ''-'', ''+''}
        \<and> ds \<noteq> [] \<and> list_all isdigit ds
        \<and> n = (if sg = ''-'' then - int (digits_val ds) else int (digits_val ds)))"

definition no_digit_ahead :: "string \<Rightarrow> bool" where
  "no_digit_ahead r = (case r of [] \<Rightarrow> True | c # cs \<Rightarrow> \<not> isdigit c)"

text \<open>
  The input \<open>s\<close> has the shape of three integers separated by \<open>sep\<close>: the numerals of
  \<open>x1\<close>, \<open>x2\<close> and \<open>x3\<close> in this order, followed by anything that does not continue
  the third numeral. \<^verbatim>\<open>YYYY-MM-DD\<close> is \<open>date_shape CHR ''-'' s y m d\<close> and
  \<^verbatim>\<open>DD/MM/YYYY\<close> is \<open>date_shape CHR ''/'' s d m y\<close>.
\<close>

definition date_shape :: "char \<Rightarrow> string \<Rightarrow> int \<Rightarrow> int \<Rightarrow> int \<Rightarrow> bool" where
  "date_shape sep s x1 x2 x3 =
     (\<exists>a b c rest. s = a @ [sep] @ b @ [sep] @ c @ rest
        \<and> int_numeral a x1 \<and> int_numeral b x2 \<and> int_numeral c x3 \<and> no_digit_ahead rest)"

subsection \<open>The range of \<^verbatim>\<open>int\<close> and the strict shapes\<close>

definition in_int :: "int \<Rightarrow> bool" where
  "in_int n = (INT_MIN \<le> n \<and> n \<le> INT_MAX)"

text \<open>
  The strict reading of the specification's shapes: three nonempty runs of digits
  separated by \<open>sep\<close>, and nothing before, between or after them.
\<close>

definition plain_numeral :: "string \<Rightarrow> int \<Rightarrow> bool" where
  "plain_numeral a n = (a \<noteq> [] \<and> list_all isdigit a \<and> n = int (digits_val a))"

definition strict_shape :: "char \<Rightarrow> string \<Rightarrow> int \<Rightarrow> int \<Rightarrow> int \<Rightarrow> bool" where
  "strict_shape sep s x1 x2 x3 =
     (\<exists>a b c. s = a @ [sep] @ b @ [sep] @ c
        \<and> plain_numeral a x1 \<and> plain_numeral b x2 \<and> plain_numeral c x3)"

subsection \<open>Room listing\<close>

text \<open>What the C standard promises of \<^verbatim>\<open>qsort\<close> with \<^verbatim>\<open>compare_rooms_by_price\<close>:
  the result holds the same elements, and the comparison is never positive for an
  element and a later one.\<close>

definition qsort_contract :: "Room sorter \<Rightarrow> bool" where
  "qsort_contract qsort =
     (\<forall>rooms. mset (qsort compare_rooms_by_price rooms) = mset rooms
        \<and> sorted_wrt (\<lambda>a b. compare_rooms_by_price a b \<le> 0)
             (qsort compare_rooms_by_price rooms))"

text \<open>A sorting routine within that promise: an insertion sort that places each element
  before the first element it does not exceed, so before its equals.\<close>

fun place_before :: "('a \<Rightarrow> 'a \<Rightarrow> int) \<Rightarrow> 'a \<Rightarrow> 'a list \<Rightarrow> 'a list" where
  "place_before cmp x [] = [x]"
| "place_before cmp x (y # ys) =
     (if cmp x y \<le> 0 then x # y # ys else y # place_before cmp x ys)"

definition insertion_qsort :: "'a sorter" where
  "insertion_qsort cmp xs = foldl (\<lambda>acc x. place_before cmp x acc) [] xs"

text \<open>The filter predicates in words: a price bound applies when it is positive, the
  type must be equal when the filter names one, the facilities must contain the
  filter's string when it has one.\<close>

definition filter_accepts :: "RoomFilter \<Rightarrow> Room \<Rightarrow> bool" where
  "filter_accepts flt room =
     ((min_price flt \<le> 0 \<or> min_price flt \<le> price room)
      \<and> (max_price flt \<le> 0 \<or> price room \<le> max_price flt)
      \<and> (RoomFilter.type flt = [] \<or> Room.type room = RoomFilter.type flt)
      \<and> (RoomFilter.facilities flt = []
           \<or> (\<exists>p q. Room.facilities room = p @ RoomFilter.facilities flt @ q)))"

text \<open>Two rooms of the same price; 101 rooms; a filter whose upper price bound is
  negative.\<close>

definition tie_rooms :: "string list" where
  "tie_rooms = [''201:Single:100.00:Available:WiFi'', ''202:Double:100.00:Available:TV'']"

definition s_ties :: store where
  "s_ties = \<lparr>room_file = Some tie_rooms, booking_file = Some [], profile_file = Some []\<rparr>"

definition s_many :: store where
  "s_many =
     \<lparr>room_file = Some (replicate 101 ''101:Single:100.00:Available:WiFi,TV,AC''),
      booking_file = Some [], profile_file = Some []\<rparr>"

definition negative_max :: RoomFilter where
  "negative_max = \<lparr>min_price = 0, max_price = - 5, type = [], facilities = []\<rparr>"

subsection \<open>Bookings that overlap a window\<close>










subsection \<open>The calendar\<close>








subsection \<open>Rooms\<close>



subsection \<open>Canonical lines and repeated cancellation\<close>










section \<open>Evaluation rules\<close>

lemma dec_numeral:
  "dec (numeral k) =
     (if numeral k < (10::nat) then [digit_chr (numeral k)]
      else dec (numeral k div 10) @ [digit_chr (numeral k mod 10)])"
  by (rule dec.simps)

lemma dec_0: "dec 0 = ''0''"
  by (simp add: dec.simps digit_chr_def)

lemma dec_Suc_0: "dec (Suc 0) = ''1''"
  by (simp add: dec.simps digit_chr_def)

lemmas clib = isdigit_def isspace_def newline_def digit_val_def digits_val_def digit_chr_def
  LONG_MIN_def LONG_MAX_def scanned_int_def conv_d_def conv_f_def conv_scanset_def assign_def fmt_d_def fmt_0d_def fmt_2f_def
  round_half_even_def dec_numeral dec_0 dec_Suc_0 Let_def

lemmas dates = format_ddd_def parse_date_def validate_date_def fmt_date_def scan_tm_def
  calculate_duration_def mktime_def day_number_def days_before_year_def days_before_month_def
  is_leap_def c_div_def

lemmas engine = on_book_room_clicked_def on_cancel_booking_clicked_def is_date_in_future_def
  is_room_available_def get_user_profile_def set_room_status_def c_mod_def c_div_def
  MAX_ROOMS_def MAX_BOOKINGS_def Let_def

lemmas states = zero_booking_def zero_room_def zero_profile_def zeroed_def seed_rooms_def
  two_profiles_def s_init_def clk_alice_def clk_bob_def rooms_101_booked_def s_alice_def
  s_alice_bob_def

lemma scan_seed:
  "scan_room ''101:Single:100.00:Available:WiFi,TV,AC'' r =
     r\<lparr>Room.room_number := 101, Room.type := ''Single'', price := 100,
       Room.status := ''Available'', Room.facilities := ''WiFi,TV,AC''\<rparr>"
  "scan_room ''102:Double:150.00:Available:WiFi,TV,AC,Meal Service'' r =
     r\<lparr>Room.room_number := 102, Room.type := ''Double'', price := 150,
       Room.status := ''Available'', Room.facilities := ''WiFi,TV,AC,Meal Service''\<rparr>"
  "scan_room ''103:Suite:300.00:Available:WiFi,TV,AC,Meal Service,Jacuzzi'' r =
     r\<lparr>Room.room_number := 103, Room.type := ''Suite'', price := 300,
       Room.status := ''Available'', Room.facilities := ''WiFi,TV,AC,Meal Service,Jacuzzi''\<rparr>"
  "scan_room ''104:Single:120.00:Available:WiFi,TV,AC,Balcony'' r =
     r\<lparr>Room.room_number := 104, Room.type := ''Single'', price := 120,
       Room.status := ''Available'', Room.facilities := ''WiFi,TV,AC,Balcony''\<rparr>"
  "scan_room ''105:Double:180.00:Available:WiFi,TV,AC,Meal Service,Balcony'' r =
     r\<lparr>Room.room_number := 105, Room.type := ''Double'', price := 180,
       Room.status := ''Available'', Room.facilities := ''WiFi,TV,AC,Meal Service,Balcony''\<rparr>"
  by (simp_all add: scan_room_def room_format_def clib)

lemma scan_101_booked:
  "scan_room ''101:Single:100.00:Booked:WiFi,TV,AC'' r =
     r\<lparr>Room.room_number := 101, Room.type := ''Single'', price := 100,
       Room.status := ''Booked'', Room.facilities := ''WiFi,TV,AC''\<rparr>"
  by (simp add: scan_room_def room_format_def clib)

lemma print_seed:
  "fmt_d 101 = ''101''" "fmt_d 102 = ''102''" "fmt_d 103 = ''103''" "fmt_d 104 = ''104''"
  "fmt_d 105 = ''105''"
  "fmt_2f 100 = ''100.00''" "fmt_2f 150 = ''150.00''" "fmt_2f 300 = ''300.00''"
  "fmt_2f 120 = ''120.00''" "fmt_2f 180 = ''180.00''"
  by (simp_all add: clib)

text \<open>What \<^verbatim>\<open>sscanf\<close> makes of a booking line the program wrote: the colons of the
  time of day end the third field early, the minutes and seconds are taken for the two
  dates, the year of the check-in date for the price, and the scan stops at the dash
  after it. The status and the booking id are not assigned.\<close>

lemma scan_alice_line:
  "scan_booking alice_line g =
     g\<lparr>username := ''alice'', Booking.room_number := 101, booking_date := ''2025-05-30 10'',
       check_in_date := ''00'', check_out_date := ''00'', total_price := 2025\<rparr>"
  by (simp add: scan_booking_def booking_format_def alice_line_def clib)

lemma scan_bob_line:
  "scan_booking bob_line g =
     g\<lparr>username := ''bob'', Booking.room_number := 101, booking_date := ''2025-05-30 11'',
       check_in_date := ''00'', check_out_date := ''00'', total_price := 2025\<rparr>"
  by (simp add: scan_booking_def booking_format_def bob_line_def clib)

lemma scan_revenue_lines:
  "scan_booking ''alice:101:2025-06-02 10:00:00:2025-06-10:2025-06-11:100.00:active:1001'' g =
     g\<lparr>username := ''alice'', Booking.room_number := 101, booking_date := ''2025-06-02 10'',
       check_in_date := ''00'', check_out_date := ''00'', total_price := 2025\<rparr>"
  "scan_booking ''bob:102:2025-06-03 09:00:00:2025-06-12:2025-06-13:50.00:canceled:1002'' g =
     g\<lparr>username := ''bob'', Booking.room_number := 102, booking_date := ''2025-06-03 09'',
       check_in_date := ''00'', check_out_date := ''00'', total_price := 2025\<rparr>"
  by (simp_all add: scan_booking_def booking_format_def clib)

lemma scan_profiles:
  "scan_profile ''alice:Alice A:ID1::12 Main St:5551234567'' p =
     p\<lparr>current_username := ''alice'', full_name := ''Alice A'', id_number := ''ID1''\<rparr>"
  "scan_profile ''bob:Bob B:ID2::1 High St:5559876543'' p =
     p\<lparr>current_username := ''bob'', full_name := ''Bob B'', id_number := ''ID2''\<rparr>"
  by (simp_all add: scan_profile_def profile_format_def clib)

lemma parse_dates:
  "parse_date ''2025-06-01'' = ''2025-06-01''"
  "parse_date ''2025-06-02'' = ''2025-06-02''"
  "parse_date ''2025-06-03'' = ''2025-06-03''"
  "parse_date ''2025-06-04'' = ''2025-06-04''"
  by (simp_all add: clib dates)

lemma durations:
  "calculate_duration ''2025-06-01'' ''2025-06-03'' = 2"
  "calculate_duration ''2025-06-02'' ''2025-06-04'' = 2"
  by (simp_all add: clib dates)

lemma print_bookings:
  "print_booking
     \<lparr>booking_id = 772000, room_number = 101, username = ''alice'',
      booking_date = ''2025-05-30 10:00:00'', check_in_date = ''2025-06-01'',
      check_out_date = ''2025-06-03'', total_price = 200, status = ''active''\<rparr> = alice_line"
  "print_booking
     \<lparr>booking_id = 775600, room_number = 101, username = ''bob'',
      booking_date = ''2025-05-30 11:00:00'', check_in_date = ''2025-06-02'',
      check_out_date = ''2025-06-04'', total_price = 200, status = ''active''\<rparr> = bob_line"
  by (simp_all add: print_booking_def alice_line_def bob_line_def clib)

section \<open>Lines that are read completely\<close>

lemma strcmp_eq: "(strcmp a b = 0) = (a = b)"
  by (induction a b rule: strcmp.induct) auto







section \<open>The overlap law (C1)\<close>

text \<open>Whatever the scan variables held before, a booking line written by the program
  for room 101 does not make \<^verbatim>\<open>is_room_available\<close> refuse an overlapping window:
  the dates it compares with are the minutes and seconds of the booking time.\<close>

lemma alice_line_never_blocks:
  "is_room_available u s_alice 101 ''2025-06-02'' ''2025-06-04''"
  by (simp add: is_room_available_def s_alice_def scan_alice_line)

text \<open>
  C1. The claim: two active bookings of a room never overlap, and a request that
  overlaps an active booking of the room fails with RoomUnavailable and appends no
  record. The program does otherwise on the specification's own end-to-end scenario,
  for every content of its uninitialised variables: alice books room 101 for
  2025-06-01 to 2025-06-03, and bob's request for 2025-06-02 to 2025-06-04 is then
  confirmed and appended as a second active booking of room 101.
\<close>

theorem overlapping_booking_is_accepted:
  "on_book_room_clicked u clk_alice ''alice'' (Some 101) ''2025-06-01'' ''2025-06-03'' s_init
     = Some (Inr \<lparr>conf_id = 772000, conf_total = 200, conf_nights = 2\<rparr>, s_alice)
   \<and> on_book_room_clicked u' clk_bob ''bob'' (Some 101) ''2025-06-02'' ''2025-06-04'' s_alice
     = Some (Inr \<lparr>conf_id = 775600, conf_total = 200, conf_nights = 2\<rparr>, s_alice_bob)"
  by (simp add: engine states parse_dates durations scan_seed scan_101_booked scan_alice_line
        scan_profiles print_room_def print_seed print_bookings)

section \<open>Validation order of a booking request (C2)\<close>

text \<open>
  C2. The claim: the checks of a booking request run in the order InvalidDateFormat,
  CheckoutNotAfterCheckin, CheckinInPast, RoomUnavailable, ProfileIncomplete, the last
  when the user's profile has an empty full name or id number, and a failed request
  leaves the stores unchanged. The first four are as claimed. The fifth is not reached
  for a user who has no profile line: carol is logged in, her dates are valid and the
  room is free, and \<^verbatim>\<open>get_user_profile\<close>, called with \<^verbatim>\<open>NULL\<close> for the
  email, runs \<^verbatim>\<open>strcpy(email, "")\<close> after its loop. The run has no result, whatever
  the uninitialised variables hold.
\<close>

lemma first_checks_in_order:
  assumes "current_user \<noteq> []"
    and "length (parse_date checkin) \<le> 19" and "length (parse_date checkout) \<le> 19"
  shows "parse_date checkin = ''invalid'' \<or> parse_date checkout = ''invalid'' \<Longrightarrow>
           on_book_room_clicked u clk current_user (Some room) checkin checkout s
             = Some (Inl InvalidDateFormat, s)"
    and "parse_date checkin \<noteq> ''invalid'' \<Longrightarrow> parse_date checkout \<noteq> ''invalid'' \<Longrightarrow>
           strcmp (parse_date checkin) (parse_date checkout) \<ge> 0 \<Longrightarrow>
           on_book_room_clicked u clk current_user (Some room) checkin checkout s
             = Some (Inl CheckoutNotAfterCheckin, s)"
    and "parse_date checkin \<noteq> ''invalid'' \<Longrightarrow> parse_date checkout \<noteq> ''invalid'' \<Longrightarrow>
           strcmp (parse_date checkin) (parse_date checkout) < 0 \<Longrightarrow>
           \<not> is_date_in_future clk (parse_date checkin) \<Longrightarrow>
           on_book_room_clicked u clk current_user (Some room) checkin checkout s
             = Some (Inl CheckinInPast, s)"
    and "parse_date checkin \<noteq> ''invalid'' \<Longrightarrow> parse_date checkout \<noteq> ''invalid'' \<Longrightarrow>
           strcmp (parse_date checkin) (parse_date checkout) < 0 \<Longrightarrow>
           is_date_in_future clk (parse_date checkin) \<Longrightarrow>
           \<not> is_room_available u s room (parse_date checkin) (parse_date checkout) \<Longrightarrow>
           on_book_room_clicked u clk current_user (Some room) checkin checkout s
             = Some (Inl RoomUnavailable, s)"
    and "parse_date checkin \<noteq> ''invalid'' \<Longrightarrow> parse_date checkout \<noteq> ''invalid'' \<Longrightarrow>
           strcmp (parse_date checkin) (parse_date checkout) < 0 \<Longrightarrow>
           is_date_in_future clk (parse_date checkin) \<Longrightarrow>
           is_room_available u s room (parse_date checkin) (parse_date checkout) \<Longrightarrow>
           get_user_profile (profile_file s) current_user (u_profile u) = Some p \<Longrightarrow>
           full_name p = [] \<or> id_number p = [] \<Longrightarrow>
           on_book_room_clicked u clk current_user (Some room) checkin checkout s
             = Some (Inl ProfileIncomplete, s)"
  using assms by (auto simp: on_book_room_clicked_def Let_def strcmp_eq)

theorem booking_without_profile_is_undefined:
  "on_book_room_clicked u clk_alice ''carol'' (Some 101) ''2025-06-01'' ''2025-06-03'' s_init
     = None"
  by (simp add: engine states parse_dates scan_profiles)

section \<open>Cancellation (C3)\<close>

lemma print_misc:
  "fmt_2f 2025 = ''2025.00''" "fmt_d 0 = ''0''" "fmt_d 772000 = ''772000''"
  by (simp_all add: clib)

text \<open>
  C3. The claim: cancelling by an id that matches a booking sets that booking's status
  to canceled, rewrites the collection with every other record unchanged and sets the
  room to Available; an id that matches nothing changes neither store. On the store
  that holds alice's booking with id 772000, written by the program, and with zeroed
  memory, the program reports success for the id 772000, but the scan assigns neither
  the status nor the id: nothing is canceled, the room stays Booked, and the record is
  rewritten with the minutes and seconds of the booking time in place of its dates,
  2025.00 as its price, an empty status and the id 0.
\<close>

theorem cancel_rewrites_booking_wrongly:
  "on_cancel_booking_clicked zeroed (Some 772000) s_alice
     = Some (Inr 772000,
         s_alice\<lparr>booking_file := Some [''alice:101:2025-05-30 10:00:00:2025.00::0'']\<rparr>)"
  by (simp add: engine states scan_alice_line scan_seed scan_101_booked print_booking_def
        print_seed print_misc)

section \<open>Revenue (C5)\<close>

lemmas civil = civil_from_days_def era_def doe_def yoe_def doy_def mp_def civil_month_def
  civil_day_def

lemma scan_tm_example:
  "scan_tm ''2025-06-02'' v = \<lparr>tm_year = 125, tm_mon = 5, tm_mday = 2\<rparr>"
  by (cases v) (simp add: scan_tm_def format_ddd_def clib)

lemma day_number_example:
  "day_number \<lparr>tm_year = 125, tm_mon = 5, tm_mday = 2\<rparr> = 20241"
  by (simp add: dates)

lemma strftime_example:
  "strftime_ymd 20241 = ''2025-06-02''" "strftime_ymd 20247 = ''2025-06-08''"
  by (simp_all add: strftime_ymd_def civil clib)

lemma week_of_example:
  "get_week_range v ''2025-06-02'' = (''2025-06-02'', ''2025-06-08'')"
  by (simp add: get_week_range_def scan_tm_example day_number_example wday_def
        strftime_example)

text \<open>
  C5. The claim: the daily and the weekly revenue are the sums of the total price over
  the active bookings of the day and of the Monday-to-Sunday week, and on the example
  (100 dollars, active, booked 2025-06-02 10:00:00; 50 dollars, canceled, booked
  2025-06-03 09:00:00) both are 100. On the lines the program writes for these
  bookings, the price read is the year of the check-in date and the status is never
  read: it is what the scan variable held before the loop. The daily revenue is 0 or
  2025 and the weekly revenue 0 or 4050, never 100.
\<close>

theorem revenue_example_is_misread:
  "calculate_daily_revenue u s_revenue ''2025-06-02''
     = (if strcmp (Booking.status (u_booking u)) ''active'' = 0 then 2025 else 0)
   \<and> calculate_weekly_revenue u s_revenue ''2025-06-02''
     = (if strcmp (Booking.status (u_booking u)) ''active'' = 0 then 4050 else 0)"
  by (simp add: calculate_daily_revenue_def calculate_weekly_revenue_def s_revenue_def
        revenue_lines_def week_of_example scan_revenue_lines strncmp_def)

section \<open>Normalisation of dates (C6)\<close>

subsection \<open>\<^verbatim>\<open>%d\<close> reads exactly the numerals\<close>

lemma digit_not_space: "isdigit c \<Longrightarrow> \<not> isspace c"
  by (auto simp: isdigit_def isspace_def)

lemma digit_not_sign: "isdigit c \<Longrightarrow> c \<noteq> CHR ''-'' \<and> c \<noteq> CHR ''+''"
  by (auto simp: isdigit_def)

lemma sign_not_space: "\<not> isspace CHR ''-''" "\<not> isspace CHR ''+''"
  by (simp_all add: isspace_def)

lemma sep_not_digit: "\<not> isdigit CHR ''-''" "\<not> isdigit CHR ''/''"
  by (simp_all add: isdigit_def)

lemma takeWhile_digits:
  "list_all isdigit ds \<Longrightarrow> no_digit_ahead r \<Longrightarrow> takeWhile isdigit (ds @ r) = ds"
  by (induction ds) (auto simp: no_digit_ahead_def split: list.splits)

lemma dropWhile_digits:
  "list_all isdigit ds \<Longrightarrow> no_digit_ahead r \<Longrightarrow> dropWhile isdigit (ds @ r) = r"
  by (induction ds) (auto simp: no_digit_ahead_def split: list.splits)

lemma dropWhile_spaces:
  "list_all isspace ws \<Longrightarrow> (case r of [] \<Rightarrow> True | c # cs \<Rightarrow> \<not> isspace c)
     \<Longrightarrow> dropWhile isspace (ws @ r) = r"
  by (induction ws) (auto split: list.splits)

lemma scanned_int_id: "in_int n \<Longrightarrow> scanned_int n = n"
  by (simp add: in_int_def INT_MIN_def INT_MAX_def LONG_MIN_def LONG_MAX_def scanned_int_def)

lemma conv_d_complete:
  assumes "int_numeral a n" and "no_digit_ahead r"
  shows "conv_d (a @ r) = Some (scanned_int n, r)"
proof -
  from assms(1) obtain ws sg ds where a: "a = ws @ sg @ ds" and ws: "list_all isspace ws"
    and sg: "sg \<in> {[], ''-'', ''+''}" and ds: "ds \<noteq> []" "list_all isdigit ds"
    and n: "n = (if sg = ''-'' then - int (digits_val ds) else int (digits_val ds))"
    unfolding int_numeral_def by blast
  from ds obtain d ds' where dd: "ds = d # ds'" "isdigit d"
    by (cases ds) auto
  have s1: "dropWhile isspace (a @ r) = sg @ ds @ r"
  proof -
    have "dropWhile isspace (ws @ (sg @ ds @ r)) = sg @ ds @ r"
      using sg dd ws by (intro dropWhile_spaces) (auto simp: digit_not_space sign_not_space)
    then show ?thesis by (simp add: a)
  qed
  have tw: "takeWhile isdigit (ds @ r) = ds" and dw: "dropWhile isdigit (ds @ r) = r"
    using ds assms(2) by (simp_all add: takeWhile_digits dropWhile_digits)
  from sg consider "sg = []" | "sg = ''-''" | "sg = ''+''" by auto
  then show ?thesis
  proof cases
    case 1
    then show ?thesis
      using dd digit_not_sign[OF dd(2)] tw dw n ds(1)
      by (simp add: conv_d_def s1 Let_def del: takeWhile.simps dropWhile.simps)
  next
    case 2
    then show ?thesis
      using tw dw n ds(1) by (simp add: conv_d_def s1 Let_def)
  next
    case 3
    then show ?thesis
      using tw dw n ds(1) by (simp add: conv_d_def s1 Let_def)
  qed
qed

lemma no_digit_after_dropWhile: "no_digit_ahead (dropWhile isdigit xs)"
  by (induction xs) (auto simp: no_digit_ahead_def)

lemma conv_d_sound:
  assumes "conv_d s = Some (n, r)"
  shows "\<exists>a k. s = a @ r \<and> int_numeral a k \<and> n = scanned_int k \<and> no_digit_ahead r"
proof -
  define ws where "ws = takeWhile isspace s"
  define s1 where "s1 = dropWhile isspace s"
  define sg where "sg = (if s1 \<noteq> [] \<and> (hd s1 = CHR ''-'' \<or> hd s1 = CHR ''+'') then [hd s1] else [])"
  define s2 where "s2 = (if s1 \<noteq> [] \<and> (hd s1 = CHR ''-'' \<or> hd s1 = CHR ''+'') then tl s1 else s1)"
  define ds where "ds = takeWhile isdigit s2"
  have s: "s = ws @ s1" by (simp add: ws_def s1_def)
  have s1: "s1 = sg @ s2" by (auto simp: sg_def s2_def)
  have s2: "s2 = ds @ dropWhile isdigit s2" by (simp add: ds_def)
  define k where
    "k = (if s1 \<noteq> [] \<and> hd s1 = CHR ''-'' then - int (digits_val ds) else int (digits_val ds))"
  have cv: "conv_d s = (if ds = [] then None else Some (scanned_int k, dropWhile isdigit s2))"
    by (simp add: conv_d_def Let_def s1_def s2_def ds_def k_def)
  from assms have nz: "ds \<noteq> []" and r: "r = dropWhile isdigit s2" and n: "n = scanned_int k"
    unfolding cv by (auto split: if_splits)
  have wsp: "list_all isspace ws" by (simp add: ws_def list_all_iff) (metis set_takeWhileD)
  have dsp: "list_all isdigit ds" by (simp add: ds_def list_all_iff) (metis set_takeWhileD)
  have nda: "no_digit_ahead r"
    unfolding r by (rule no_digit_after_dropWhile)
  have sgs: "sg \<in> {[], ''-'', ''+''}" by (auto simp: sg_def)
  have nn: "k = (if sg = ''-'' then - int (digits_val ds) else int (digits_val ds))"
    unfolding k_def by (auto simp: sg_def)
  have "s = (ws @ sg @ ds) @ r" using s s1 s2 r by simp
  moreover have "int_numeral (ws @ sg @ ds) k"
    unfolding int_numeral_def using wsp dsp nz sgs nn by blast
  ultimately show ?thesis using nda n by blast
qed

subsection \<open>The format of three integers\<close>

lemma sscanf_ddd_unfold:
  "sscanf (format_ddd sep) s (x, y, z) =
     (case conv_d s of None \<Rightarrow> (0, x, y, z) | Some (a, s1) \<Rightarrow>
      (case s1 of [] \<Rightarrow> (1, a, y, z) | c1 # s2 \<Rightarrow>
         if c1 \<noteq> sep then (1, a, y, z) else
      (case conv_d s2 of None \<Rightarrow> (1, a, y, z) | Some (b, s3) \<Rightarrow>
      (case s3 of [] \<Rightarrow> (2, a, b, z) | c2 # s4 \<Rightarrow>
         if c2 \<noteq> sep then (2, a, b, z) else
      (case conv_d s4 of None \<Rightarrow> (2, a, b, z) | Some (c, s5) \<Rightarrow> (3, a, b, c))))))"
  by (simp add: format_ddd_def assign_def split: option.splits list.splits)

lemma sscanf_ddd_complete:
  assumes "date_shape sep s x1 x2 x3" and "\<not> isdigit sep"
  shows "sscanf (format_ddd sep) s v = (3, scanned_int x1, scanned_int x2, scanned_int x3)"
proof -
  from assms(1) obtain a b c rest where s: "s = a @ [sep] @ b @ [sep] @ c @ rest"
    and n: "int_numeral a x1" "int_numeral b x2" "int_numeral c x3" and r: "no_digit_ahead rest"
    unfolding date_shape_def by blast
  have nd: "no_digit_ahead (sep # t)" for t
    using assms(2) by (simp add: no_digit_ahead_def)
  have 1: "conv_d s = Some (scanned_int x1, sep # b @ sep # c @ rest)"
    using conv_d_complete[OF n(1) nd] by (simp add: s)
  have 2: "conv_d (b @ sep # c @ rest) = Some (scanned_int x2, sep # c @ rest)"
    using conv_d_complete[OF n(2) nd] by simp
  have 3: "conv_d (c @ rest) = Some (scanned_int x3, rest)"
    using conv_d_complete[OF n(3) r] .
  show ?thesis
    by (cases v) (simp add: sscanf_ddd_unfold 1 2 3)
qed

lemma sscanf_ddd_sound:
  assumes "sscanf (format_ddd sep) s v = (3, x1, x2, x3)"
  shows "\<exists>k1 k2 k3. date_shape sep s k1 k2 k3
           \<and> x1 = scanned_int k1 \<and> x2 = scanned_int k2 \<and> x3 = scanned_int k3"
proof -
  obtain x y z where v: "v = (x, y, z)" by (cases v)
  from assms obtain s1 s3 s5 where
      1: "conv_d s = Some (x1, sep # s1)" and 2: "conv_d s1 = Some (x2, sep # s3)"
      and 3: "conv_d s3 = Some (x3, s5)"
    unfolding v sscanf_ddd_unfold
    by (auto split: option.splits list.splits if_splits)
  from conv_d_sound[OF 1] obtain a k1 where
    a: "s = a @ sep # s1" "int_numeral a k1" "x1 = scanned_int k1" by blast
  from conv_d_sound[OF 2] obtain b k2 where
    b: "s1 = b @ sep # s3" "int_numeral b k2" "x2 = scanned_int k2" by blast
  from conv_d_sound[OF 3] obtain c k3 where
    c: "s3 = c @ s5" "int_numeral c k3" "x3 = scanned_int k3" "no_digit_ahead s5" by blast
  have "s = a @ [sep] @ b @ [sep] @ c @ s5" using a b c by simp
  then have "date_shape sep s k1 k2 k3" unfolding date_shape_def using a b c by blast
  with a b c show ?thesis by blast
qed

lemma sscanf_ddd_count: "fst (sscanf (format_ddd sep) s v) \<le> 3"
  by (cases v) (simp add: sscanf_ddd_unfold split: option.splits list.splits)

subsection \<open>\<^verbatim>\<open>%0wd\<close> writes a numeral of its argument\<close>

lemma lt10_cases:
  "d < 10 \<Longrightarrow> d = 0 \<or> d = 1 \<or> d = 2 \<or> d = 3 \<or> d = 4 \<or> d = 5 \<or> d = 6 \<or> d = 7 \<or> d = 8 \<or> d = (9::nat)"
  by arith

lemma digit_chr_isdigit:
  assumes "d < 10"
  shows "isdigit (digit_chr d)"
  using lt10_cases[OF assms] by (elim disjE) (simp_all add: digit_chr_def isdigit_def)

lemma digit_val_chr:
  assumes "d < 10"
  shows "digit_val (digit_chr d) = d"
  using lt10_cases[OF assms] by (elim disjE) (simp_all add: digit_chr_def digit_val_def)

lemma dec_all_digits: "list_all isdigit (dec n)"
proof (induction n rule: dec.induct)
  case (1 n)
  show ?case
  proof (cases "n < 10")
    case True
    then show ?thesis by (simp add: dec.simps[of n] digit_chr_isdigit)
  next
    case False
    with 1 show ?thesis by (simp add: dec.simps[of n] digit_chr_isdigit)
  qed
qed

lemma dec_nonempty: "dec n \<noteq> []"
  by (simp add: dec.simps[of n])

lemma digits_val_snoc: "digits_val (xs @ [c]) = 10 * digits_val xs + digit_val c"
  by (simp add: digits_val_def)

lemma digits_val_dec: "digits_val (dec n) = n"
proof (induction n rule: dec.induct)
  case (1 n)
  show ?case
  proof (cases "n < 10")
    case True
    then show ?thesis by (simp add: dec.simps[of n] digits_val_def digit_val_chr)
  next
    case False
    with 1 show ?thesis by (simp add: dec.simps[of n] digits_val_snoc digit_val_chr)
  qed
qed

lemma digits_val_zeros: "digits_val (replicate k CHR ''0'' @ ds) = digits_val ds"
proof -
  have "foldl (\<lambda>a c. 10 * a + digit_val c) 0 (replicate k CHR ''0'') = 0"
    by (induction k) (simp_all add: digit_val_def)
  then show ?thesis by (simp add: digits_val_def)
qed

lemma zero_is_digit: "isdigit CHR ''0''"
  by (simp add: isdigit_def)

lemma int_numeral_fmt_0d: "int_numeral (fmt_0d w n) n"
proof -
  define sg where "sg = (if n < 0 then ''-'' else [])"
  define ds where "ds = replicate (w - length sg - length (dec (nat \<bar>n\<bar>))) CHR ''0'' @ dec (nat \<bar>n\<bar>)"
  have f: "fmt_0d w n = [] @ sg @ ds"
    by (simp add: fmt_0d_def Let_def sg_def ds_def)
  have z: "isdigit CHR ''0''" by (simp add: isdigit_def)
  have d: "list_all isdigit ds" "ds \<noteq> []"
    using dec_all_digits[of "nat \<bar>n\<bar>"] dec_nonempty[of "nat \<bar>n\<bar>"] z
    by (auto simp: ds_def list_all_iff)
  have v: "int (digits_val ds) = \<bar>n\<bar>"
    by (simp add: ds_def digits_val_zeros digits_val_dec)
  have n: "n = (if sg = ''-'' then - int (digits_val ds) else int (digits_val ds))"
    by (simp add: v sg_def)
  have s: "sg \<in> {[], ''-'', ''+''}" by (simp add: sg_def)
  show ?thesis
    unfolding int_numeral_def f using d n s by (intro exI[of _ "[]"] exI[of _ sg] exI[of _ ds]) simp
qed

lemma date_shape_fmt_date: "date_shape CHR ''-'' (fmt_date y m d) y m d"
  unfolding date_shape_def fmt_date_def
  by (intro exI[of _ "fmt_0d 4 y"] exI[of _ "fmt_0d 2 m"] exI[of _ "fmt_0d 2 d"] exI[of _ "[]"])
     (simp add: int_numeral_fmt_0d no_digit_ahead_def)

lemma fmt_0d_head: "\<exists>c cs. fmt_0d w n = c # cs \<and> (c = CHR ''-'' \<or> isdigit c)"
proof (cases "n < 0")
  case True
  then show ?thesis by (simp add: fmt_0d_def Let_def)
next
  case False
  define ds where "ds = replicate (w - length (dec (nat \<bar>n\<bar>))) CHR ''0'' @ dec (nat \<bar>n\<bar>)"
  have "list_all isdigit ds" "ds \<noteq> []"
    using dec_all_digits[of "nat \<bar>n\<bar>"] dec_nonempty[of "nat \<bar>n\<bar>"] zero_is_digit
    by (auto simp: ds_def list_all_iff)
  then obtain c cs where "ds = c # cs" "isdigit c" by (cases ds) auto
  moreover have "fmt_0d w n = ds" using False by (simp add: fmt_0d_def Let_def ds_def)
  ultimately show ?thesis by simp
qed

lemma fmt_date_not_invalid: "fmt_date y m d \<noteq> ''invalid''"
proof -
  obtain c cs where h: "fmt_0d 4 y = c # cs" "c = CHR ''-'' \<or> isdigit c"
    using fmt_0d_head by blast
  have "\<not> isdigit CHR ''i''" by (simp add: isdigit_def)
  with h show ?thesis by (auto simp: fmt_date_def)
qed

subsection \<open>\<^verbatim>\<open>parse_date\<close>\<close>

lemma parse_date_ymd_scanned:
  assumes "date_shape CHR ''-'' s y m d"
  shows "parse_date s = fmt_date (scanned_int y) (scanned_int m) (scanned_int d)"
  using sscanf_ddd_complete[OF assms sep_not_digit(1)] by (simp add: parse_date_def)

lemma parse_date_dmy_scanned:
  assumes "date_shape CHR ''/'' s d m y"
  shows "parse_date s = fmt_date (scanned_int y) (scanned_int m) (scanned_int d)"
proof -
  from assms obtain a t where s: "s = a @ CHR ''/'' # t" and a: "int_numeral a d"
    unfolding date_shape_def by auto
  have nd: "no_digit_ahead (CHR ''/'' # t)"
    by (simp add: no_digit_ahead_def sep_not_digit)
  have c: "conv_d s = Some (scanned_int d, CHR ''/'' # t)"
    using conv_d_complete[OF a nd] by (simp add: s)
  have first: "sscanf (format_ddd CHR ''-'') s (0, 0, 0) = (1, scanned_int d, 0, 0)"
    by (simp add: sscanf_ddd_unfold c)
  show ?thesis
    using sscanf_ddd_complete[OF assms sep_not_digit(2)] by (simp add: parse_date_def first)
qed

lemma parse_date_ymd:
  assumes "date_shape CHR ''-'' s y m d" and "in_int y" and "in_int m" and "in_int d"
  shows "parse_date s = fmt_date y m d"
  using parse_date_ymd_scanned[OF assms(1)] assms(2-4) by (simp add: scanned_int_id)

lemma parse_date_dmy:
  assumes "date_shape CHR ''/'' s d m y" and "in_int y" and "in_int m" and "in_int d"
  shows "parse_date s = fmt_date y m d"
  using parse_date_dmy_scanned[OF assms(1)] assms(2-4) by (simp add: scanned_int_id)

lemma parse_date_valid_shape:
  assumes "parse_date s \<noteq> ''invalid''"
  shows "\<exists>y m d. date_shape CHR ''-'' s y m d \<or> date_shape CHR ''/'' s d m y"
proof -
  obtain n y m d where 1: "sscanf (format_ddd CHR ''-'') s (0, 0, 0) = (n, y, m, d)"
    by (cases "sscanf (format_ddd CHR ''-'') s (0, 0, 0)") auto
  show ?thesis
  proof (cases "n = 3")
    case True
    with 1 sscanf_ddd_sound[of "CHR ''-''" s "(0, 0, 0)" y m d] show ?thesis by blast
  next
    case False
    obtain n' d' m' y' where 2: "sscanf (format_ddd CHR ''/'') s (d, m, y) = (n', d', m', y')"
      by (cases "sscanf (format_ddd CHR ''/'') s (d, m, y)") auto
    with assms 1 False have "n' = 3"
      by (auto simp: parse_date_def split: if_splits)
    with 2 sscanf_ddd_sound[of "CHR ''/''" s "(d, m, y)" d' m' y'] show ?thesis by blast
  qed
qed

lemma plain_numeral_int_numeral: "plain_numeral a n \<Longrightarrow> int_numeral a n"
  unfolding plain_numeral_def int_numeral_def
  by (intro exI[of _ "[]"] exI[of _ a]) simp

lemma strict_shape_date_shape:
  assumes "strict_shape sep s x1 x2 x3"
  shows "date_shape sep s x1 x2 x3"
proof -
  from assms obtain a b c where "s = a @ [sep] @ b @ [sep] @ c @ []"
      "int_numeral a x1" "int_numeral b x2" "int_numeral c x3"
    unfolding strict_shape_def by (auto simp: plain_numeral_int_numeral)
  moreover have "no_digit_ahead []" by (simp add: no_digit_ahead_def)
  ultimately show ?thesis unfolding date_shape_def by blast
qed

lemma strict_shape_last:
  assumes "strict_shape sep s x1 x2 x3"
  shows "isdigit (last s)"
proof -
  from assms obtain a b c where s: "s = a @ [sep] @ b @ [sep] @ c"
      and c: "c \<noteq> []" "list_all isdigit c"
    unfolding strict_shape_def plain_numeral_def by blast
  from c have "isdigit (last c)" by (simp add: list_all_iff)
  with c(1) show ?thesis by (simp add: s)
qed

lemma length_dec: "0 < k \<Longrightarrow> n < 10 ^ k \<Longrightarrow> length (dec n) \<le> k"
proof (induction k arbitrary: n)
  case 0
  then show ?case by simp
next
  case (Suc k)
  show ?case
  proof (cases "n < 10")
    case True
    then show ?thesis by (simp add: dec.simps[of n])
  next
    case False
    with Suc.prems have k: "0 < k" by (cases k) auto
    from Suc.prems have "n div 10 < 10 ^ k" by (simp add: less_mult_imp_div_less mult.commute)
    from Suc.IH[OF k this] False show ?thesis by (simp add: dec.simps[of n])
  qed
qed

lemma length_fmt_0d:
  assumes "0 \<le> n" and "n < 10 ^ w" and "0 < w"
  shows "length (fmt_0d w n) = w"
proof -
  from assms have "nat \<bar>n\<bar> < 10 ^ w"
    by (simp add: nat_less_iff)
  from length_dec[OF assms(3) this] assms(1) show ?thesis
    by (simp add: fmt_0d_def Let_def)
qed

lemma length_fmt_date:
  assumes "0 \<le> y" "y \<le> 9999" "0 \<le> m" "m \<le> 99" "0 \<le> d" "d \<le> 99"
  shows "length (fmt_date y m d) = 10"
  using assms length_fmt_0d[of y 4] length_fmt_0d[of m 2] length_fmt_0d[of d 2]
  by (simp add: fmt_date_def)

lemma parse_examples:
  "parse_date ''2025-03-10'' = ''2025-03-10''"
  "parse_date ''10/03/2025'' = ''2025-03-10''"
  "parse_date ''not-a-date'' = ''invalid''"
  "parse_date ''2025-13-40'' = ''2025-13-40''"
  "parse_date ''2025-13-41'' = ''2025-13-41''"
  by (simp_all add: clib dates)

lemma parse_more_examples:
  "parse_date ''2025-06-01xyz'' = ''2025-06-01''"
  "parse_date ''2147483648-01-01'' = ''-2147483648-01-01''"
  by (simp_all add: clib dates)

lemma strict_examples:
  "strict_shape CHR ''-'' ''2025-03-10'' 2025 3 10"
  "strict_shape CHR ''/'' ''10/03/2025'' 10 3 2025"
  "strict_shape CHR ''-'' ''2025-13-40'' 2025 13 40"
  "strict_shape CHR ''-'' ''2147483648-01-01'' 2147483648 1 1"
proof -
  have p: "plain_numeral ''2025'' 2025" "plain_numeral ''03'' 3" "plain_numeral ''10'' 10"
    "plain_numeral ''13'' 13" "plain_numeral ''40'' 40" "plain_numeral ''01'' 1"
    "plain_numeral ''2147483648'' 2147483648"
    by (simp_all add: plain_numeral_def clib)
  have "''2025-03-10'' = ''2025'' @ [CHR ''-''] @ ''03'' @ [CHR ''-''] @ ''10''" by simp
  with p show "strict_shape CHR ''-'' ''2025-03-10'' 2025 3 10"
    unfolding strict_shape_def by blast
  have "''10/03/2025'' = ''10'' @ [CHR ''/''] @ ''03'' @ [CHR ''/''] @ ''2025''" by simp
  with p show "strict_shape CHR ''/'' ''10/03/2025'' 10 3 2025"
    unfolding strict_shape_def by blast
  have "''2025-13-40'' = ''2025'' @ [CHR ''-''] @ ''13'' @ [CHR ''-''] @ ''40''" by simp
  with p show "strict_shape CHR ''-'' ''2025-13-40'' 2025 13 40"
    unfolding strict_shape_def by blast
  have "''2147483648-01-01'' = ''2147483648'' @ [CHR ''-''] @ ''01'' @ [CHR ''-''] @ ''01''"
    by simp
  with p show "strict_shape CHR ''-'' ''2147483648-01-01'' 2147483648 1 1"
    unfolding strict_shape_def by blast
qed

lemma not_a_date_has_no_shape:
  "\<not> date_shape CHR ''-'' ''not-a-date'' a b c" "\<not> date_shape CHR ''/'' ''not-a-date'' a b c"
proof -
  have "sscanf (format_ddd sep) ''not-a-date'' (0, 0, 0) = (0, 0, 0, 0)" for sep
    by (simp add: format_ddd_def clib)
  then show "\<not> date_shape CHR ''-'' ''not-a-date'' a b c"
      "\<not> date_shape CHR ''/'' ''not-a-date'' a b c"
    using sscanf_ddd_complete[of "CHR ''-''" "''not-a-date''" a b c "(0, 0, 0)"]
      sscanf_ddd_complete[of "CHR ''/''" "''not-a-date''" a b c "(0, 0, 0)"] sep_not_digit
    by auto
qed

text \<open>
  C6. The claim: an input of the shape \<^verbatim>\<open>YYYY-MM-DD\<close>, three integers separated by
  dashes, is normalised to the zero-padded form of the same triple, an input of the
  shape \<^verbatim>\<open>DD/MM/YYYY\<close> to the zero-padded form with the year first, and every other
  input to the marker \<^verbatim>\<open>invalid\<close>. The program does otherwise on two kinds of
  input. \<^verbatim>\<open>2025-06-01xyz\<close> is of neither shape, read strictly, and is normalised to
  \<^verbatim>\<open>2025-06-01\<close>: \<^verbatim>\<open>sscanf\<close> does not look beyond the third integer. And
  \<^verbatim>\<open>2147483648-01-01\<close> is of the first shape, but its year is outside the range of
  \<^verbatim>\<open>int\<close>: the result is \<^verbatim>\<open>-2147483648-01-01\<close>, as glibc stores the year.
\<close>

theorem parse_date_accepts_more:
  "(\<forall>a b c. \<not> strict_shape CHR ''-'' ''2025-06-01xyz'' a b c
        \<and> \<not> strict_shape CHR ''/'' ''2025-06-01xyz'' a b c)
   \<and> parse_date ''2025-06-01xyz'' = ''2025-06-01''
   \<and> strict_shape CHR ''-'' ''2147483648-01-01'' 2147483648 1 1
   \<and> parse_date ''2147483648-01-01'' = ''-2147483648-01-01''
   \<and> fmt_date 2147483648 1 1 = ''2147483648-01-01''"
proof -
  have "\<not> isdigit (last ''2025-06-01xyz'')" by (simp add: isdigit_def)
  then have "\<not> strict_shape sep ''2025-06-01xyz'' a b c" for sep a b c
    using strict_shape_last by blast
  moreover have "fmt_date 2147483648 1 1 = ''2147483648-01-01''"
    by (simp add: fmt_date_def clib)
  ultimately show ?thesis by (simp add: parse_more_examples strict_examples)
qed

text \<open>
  C6, amended. The shapes are those \<^verbatim>\<open>sscanf\<close> accepts: the input begins with three
  numerals, each with optional white space and an optional sign before its digits,
  separated by dashes (or slashes), and anything may follow that does not continue the
  third numeral. When the three integers are in the range of \<^verbatim>\<open>int\<close>, an input of
  the first shape is normalised to the zero-padded form of the triple, and an input of
  the second shape to the zero-padded form with the year first. An input of neither
  shape is normalised to the marker \<^verbatim>\<open>invalid\<close>. The strict shapes are instances of
  these. The zero-padded form of integers in the range of \<^verbatim>\<open>int\<close> is normalised to
  itself, it is never the marker, and it has 10 characters for a year from 0 to 9999
  and a month and a day from 0 to 99. The three examples of the specification hold.
\<close>

theorem parse_date_normalises:
  "(date_shape CHR ''-'' s y m d \<and> in_int y \<and> in_int m \<and> in_int d
      \<longrightarrow> parse_date s = fmt_date y m d)
   \<and> (date_shape CHR ''/'' s d m y \<and> in_int y \<and> in_int m \<and> in_int d
        \<longrightarrow> parse_date s = fmt_date y m d)
   \<and> ((\<forall>a b c. \<not> date_shape CHR ''-'' s a b c \<and> \<not> date_shape CHR ''/'' s a b c)
        \<longrightarrow> parse_date s = ''invalid'')
   \<and> (strict_shape sep s x1 x2 x3 \<longrightarrow> date_shape sep s x1 x2 x3)
   \<and> (in_int y \<and> in_int m \<and> in_int d \<longrightarrow> parse_date (fmt_date y m d) = fmt_date y m d)
   \<and> fmt_date y m d \<noteq> ''invalid''
   \<and> (0 \<le> y \<and> y \<le> 9999 \<and> 0 \<le> m \<and> m \<le> 99 \<and> 0 \<le> d \<and> d \<le> 99
        \<longrightarrow> length (fmt_date y m d) = 10)
   \<and> parse_date ''2025-03-10'' = ''2025-03-10''
   \<and> parse_date ''10/03/2025'' = ''2025-03-10''
   \<and> parse_date ''not-a-date'' = ''invalid''"
proof -
  have 1: "date_shape CHR ''-'' s y m d \<and> in_int y \<and> in_int m \<and> in_int d
      \<longrightarrow> parse_date s = fmt_date y m d"
    using parse_date_ymd[of s y m d] by blast
  have 2: "date_shape CHR ''/'' s d m y \<and> in_int y \<and> in_int m \<and> in_int d
      \<longrightarrow> parse_date s = fmt_date y m d"
    using parse_date_dmy[of s d m y] by blast
  have 3: "(\<forall>a b c. \<not> date_shape CHR ''-'' s a b c \<and> \<not> date_shape CHR ''/'' s a b c)
      \<longrightarrow> parse_date s = ''invalid''"
    using parse_date_valid_shape[of s] by blast
  have 4: "strict_shape sep s x1 x2 x3 \<longrightarrow> date_shape sep s x1 x2 x3"
    using strict_shape_date_shape by blast
  have 5: "in_int y \<and> in_int m \<and> in_int d \<longrightarrow> parse_date (fmt_date y m d) = fmt_date y m d"
    using parse_date_ymd[OF date_shape_fmt_date, of y m d] by blast
  have 6: "0 \<le> y \<and> y \<le> 9999 \<and> 0 \<le> m \<and> m \<le> 99 \<and> 0 \<le> d \<and> d \<le> 99
      \<longrightarrow> length (fmt_date y m d) = 10"
    using length_fmt_date[of y m d] by blast
  from 1 2 3 4 5 6 fmt_date_not_invalid[of y m d] show ?thesis
    by (simp only: parse_examples) blast
qed

theorem parse_date_normalises_witness:
  "strict_shape CHR ''/'' ''10/03/2025'' 10 3 2025
   \<and> date_shape CHR ''/'' ''10/03/2025'' 10 3 2025
   \<and> in_int 2025 \<and> in_int 3 \<and> in_int 10
   \<and> parse_date ''10/03/2025'' = fmt_date 2025 3 10
   \<and> fmt_date 2025 3 10 = ''2025-03-10''
   \<and> length (fmt_date 2025 3 10) = 10
   \<and> parse_date (fmt_date 2025 3 10) = fmt_date 2025 3 10
   \<and> date_shape CHR ''-'' ''2025-03-10'' 2025 3 10
   \<and> parse_date ''2025-03-10'' = fmt_date 2025 3 10
   \<and> (\<forall>a b c. \<not> date_shape CHR ''-'' ''not-a-date'' a b c
         \<and> \<not> date_shape CHR ''/'' ''not-a-date'' a b c)
   \<and> parse_date ''not-a-date'' = ''invalid''"
proof -
  have r: "in_int 2025" "in_int 3" "in_int 10"
    by (simp_all add: in_int_def INT_MIN_def INT_MAX_def)
  have f: "fmt_date 2025 3 10 = ''2025-03-10''"
    by (simp add: fmt_date_def clib)
  note a = parse_date_normalises[of "''10/03/2025''" 2025 3 10 "CHR ''/''" 10 3 2025]
  note b = parse_date_normalises[of "''2025-03-10''" 2025 3 10 "CHR ''-''" 2025 3 10]
  note c = parse_date_normalises[of "''not-a-date''" 0 0 0 "CHR ''-''" 0 0 0]
  from a r strict_examples(2) have 1: "date_shape CHR ''/'' ''10/03/2025'' 10 3 2025"
    "parse_date ''10/03/2025'' = fmt_date 2025 3 10" "length (fmt_date 2025 3 10) = 10"
    "parse_date (fmt_date 2025 3 10) = fmt_date 2025 3 10"
    by (simp_all add: f)
  from b r strict_examples(1) have 2: "date_shape CHR ''-'' ''2025-03-10'' 2025 3 10"
    "parse_date ''2025-03-10'' = fmt_date 2025 3 10"
    by (simp_all add: f)
  from c not_a_date_has_no_shape have 3: "parse_date ''not-a-date'' = ''invalid''"
    by blast
  from 1 2 3 r f strict_examples(2) not_a_date_has_no_shape show ?thesis by simp
qed

section \<open>Availability and the room status field (C9)\<close>











section \<open>No calendar range check on the booking path (C10)\<close>

lemma duration_month13: "calculate_duration ''2025-13-40'' ''2025-13-41'' = 1"
  by (simp add: clib dates)

lemma print_month13:
  "print_booking
     \<lparr>booking_id = 772000, room_number = 101, username = ''alice'',
      booking_date = ''2025-05-30 10:00:00'', check_in_date = ''2025-13-40'',
      check_out_date = ''2025-13-41'', total_price = 100, status = ''active''\<rparr>
   = ''alice:101:2025-05-30 10:00:00:2025-13-40:2025-13-41:100.00:active:772000''"
  by (simp add: print_booking_def print_seed print_misc)

text \<open>
  C10. Every input of one of the two shapes is normalised to something other than the
  marker \<^verbatim>\<open>invalid\<close>, whatever its month and day: \<^verbatim>\<open>2025-13-40\<close> is normalised
  to itself. \<^verbatim>\<open>validate_date\<close> rejects that date, but the booking path does not call
  it: the request from \<^verbatim>\<open>2025-13-40\<close> to \<^verbatim>\<open>2025-13-41\<close> is confirmed, for one
  night, and recorded.
\<close>

theorem no_calendar_range_check:
  "(date_shape CHR ''-'' s y m d \<or> date_shape CHR ''/'' s d m y \<longrightarrow> parse_date s \<noteq> ''invalid'')
   \<and> parse_date ''2025-13-40'' = ''2025-13-40''
   \<and> \<not> validate_date ''2025-13-40''
   \<and> on_book_room_clicked u clk_alice ''alice'' (Some 101) ''2025-13-40'' ''2025-13-41'' s_init
        = Some (Inr \<lparr>conf_id = 772000, conf_total = 100, conf_nights = 1\<rparr>, s_month13)"
proof -
  have 1: "date_shape CHR ''-'' s y m d \<or> date_shape CHR ''/'' s d m y \<longrightarrow> parse_date s \<noteq> ''invalid''"
    using parse_date_ymd_scanned[of s y m d] parse_date_dmy_scanned[of s d m y]
      fmt_date_not_invalid[of "scanned_int y" "scanned_int m" "scanned_int d"]
    by auto
  have 2: "\<not> validate_date ''2025-13-40''"
    by (simp add: clib dates)
  have 3: "on_book_room_clicked u clk_alice ''alice'' (Some 101) ''2025-13-40'' ''2025-13-41'' s_init
        = Some (Inr \<lparr>conf_id = 772000, conf_total = 100, conf_nights = 1\<rparr>, s_month13)"
    by (simp add: engine states s_month13_def parse_examples duration_month13 scan_seed
          scan_profiles print_room_def print_seed print_month13)
  from 1 2 3 show ?thesis by (simp add: parse_examples)
qed

theorem no_calendar_range_check_witness:
  "date_shape CHR ''-'' ''2025-13-40'' 2025 13 40 \<and> parse_date ''2025-13-40'' \<noteq> ''invalid''"
proof -
  have sh: "date_shape CHR ''-'' ''2025-13-40'' 2025 13 40"
    using strict_examples(3) by (rule strict_shape_date_shape)
  with no_calendar_range_check[of "''2025-13-40''" 2025 13 40] show ?thesis by simp
qed

section \<open>Room listing (C8)\<close>

lemma starts_with_iff: "starts_with s n = (\<exists>q. s = n @ q)"
  by (induction s n rule: starts_with.induct) auto

lemma strstr_iff: "strstr h n = (\<exists>p q. h = p @ n @ q)"
proof (induction h)
  case Nil
  then show ?case by auto
next
  case (Cons x xs)
  show ?case
  proof
    assume "strstr (x # xs) n"
    then consider "starts_with (x # xs) n" | "strstr xs n" by auto
    then show "\<exists>p q. x # xs = p @ n @ q"
    proof cases
      case 1
      then obtain q where "x # xs = n @ q" by (auto simp: starts_with_iff)
      then have "x # xs = [] @ n @ q" by simp
      then show ?thesis by blast
    next
      case 2
      with Cons obtain p q where "xs = p @ n @ q" by blast
      then have "x # xs = (x # p) @ n @ q" by simp
      then show ?thesis by blast
    qed
  next
    assume "\<exists>p q. x # xs = p @ n @ q"
    then obtain p q where e: "x # xs = p @ n @ q" by blast
    show "strstr (x # xs) n"
    proof (cases p)
      case Nil
      with e have "starts_with (x # xs) n" by (auto simp: starts_with_iff)
      then show ?thesis by simp
    next
      case (Cons y p')
      with e have "xs = p' @ n @ q" by simp
      with Cons.IH have "strstr xs n" by blast
      then show ?thesis by simp
    qed
  qed
qed

lemma passes_filter_spec: "passes_filter (Some flt) room = filter_accepts flt room"
  by (auto simp: passes_filter_def filter_accepts_def strcmp_eq strstr_iff)

lemma read_rooms_filtered_eq:
  "length acc \<le> MAX_ROOMS \<Longrightarrow>
     read_rooms_filtered u flt i lines acc =
       take MAX_ROOMS (acc @ filter (passes_filter flt) (read_rooms u (\<lambda>r. r) i lines))"
proof (induction lines arbitrary: i acc)
  case Nil
  then show ?case by simp
next
  case (Cons line lines)
  show ?case
  proof (cases "length acc < MAX_ROOMS")
    case True
    then show ?thesis
      using Cons.IH[of "acc @ [scan_room line (u i)]" "Suc i"] Cons.IH[of acc "Suc i"] Cons.prems
      by (simp add: Let_def)
  next
    case False
    with Cons.prems show ?thesis by simp
  qed
qed

lemma compare_le: "(compare_rooms_by_price a b \<le> 0) = (price a \<le> price b)"
  by (auto simp: compare_rooms_by_price_def)

lemma mset_place_before: "mset (place_before cmp x ys) = add_mset x (mset ys)"
  by (induction ys) auto

lemma set_place_before: "set (place_before cmp x ys) = insert x (set ys)"
  by (induction ys) auto

lemma sorted_place_before:
  "sorted_wrt (\<lambda>a b. price a \<le> price b) ys \<Longrightarrow>
     sorted_wrt (\<lambda>a b. price a \<le> price b) (place_before compare_rooms_by_price x ys)"
proof (induction ys)
  case Nil
  then show ?case by simp
next
  case (Cons y ys)
  then show ?case
    by (auto simp: compare_le set_place_before intro: order_trans)
qed

lemma insertion_fold:
  "sorted_wrt (\<lambda>a b. price a \<le> price b) acc \<Longrightarrow>
     sorted_wrt (\<lambda>a b. price a \<le> price b)
       (foldl (\<lambda>acc x. place_before compare_rooms_by_price x acc) acc xs)
     \<and> mset (foldl (\<lambda>acc x. place_before compare_rooms_by_price x acc) acc xs)
         = mset acc + mset xs"
proof (induction xs arbitrary: acc)
  case Nil
  then show ?case by simp
next
  case (Cons x xs)
  from Cons.IH[OF sorted_place_before[OF Cons.prems, of x]]
  show ?case by (simp add: mset_place_before)
qed

lemma insertion_qsort_contract: "qsort_contract insertion_qsort"
  unfolding qsort_contract_def insertion_qsort_def
  using insertion_fold[of "[]"] by (simp add: compare_le)

lemma length_read_rooms: "length (read_rooms u mark i lines) = length lines"
  by (induction lines arbitrary: i) auto

lemma load_rooms_eq:
  "room_file s = Some lines \<Longrightarrow>
     load_rooms_into_store qsort u s flt =
       qsort compare_rooms_by_price
         (take MAX_ROOMS (filter (passes_filter flt) (read_rooms (u_rooms u) (\<lambda>r. r) 0 lines)))"
  by (simp add: load_rooms_into_store_def read_rooms_filtered_eq)

text \<open>
  C8, as amended. For every room file and filter, and every sorting routine within the
  promise of \<^verbatim>\<open>qsort\<close>, the listing holds the first \<open>MAX_ROOMS\<close> rooms of the
  file, each line scanned, that pass the filter, arranged ascending by price; without
  a room file it is empty. A price bound applies when it is positive, the type when
  it is not empty, the facilities when they are not empty. Nothing is said of the order
  among rooms of equal price.
\<close>

theorem room_listing:
  assumes "qsort_contract qsort"
  shows "(room_file s = Some lines \<longrightarrow>
            mset (load_rooms_into_store qsort u s flt) =
              mset (take MAX_ROOMS
                      (filter (passes_filter flt) (read_rooms (u_rooms u) (\<lambda>r. r) 0 lines))))
         \<and> (room_file s = None \<longrightarrow> load_rooms_into_store qsort u s flt = [])
         \<and> sorted_wrt (\<lambda>a b. price a \<le> price b) (load_rooms_into_store qsort u s flt)
         \<and> passes_filter (Some f) room = filter_accepts f room
         \<and> passes_filter None room"
proof -
  have c: "mset (qsort compare_rooms_by_price xs) = mset xs"
      "sorted_wrt (\<lambda>a b. price a \<le> price b) (qsort compare_rooms_by_price xs)" for xs
    using assms by (simp_all add: qsort_contract_def compare_le)
  have 1: "room_file s = Some lines \<longrightarrow>
            mset (load_rooms_into_store qsort u s flt) =
              mset (take MAX_ROOMS
                      (filter (passes_filter flt) (read_rooms (u_rooms u) (\<lambda>r. r) 0 lines)))"
    by (simp add: load_rooms_eq c)
  have 2: "room_file s = None \<longrightarrow> load_rooms_into_store qsort u s flt = []"
    by (simp add: load_rooms_into_store_def)
  have 3: "sorted_wrt (\<lambda>a b. price a \<le> price b) (load_rooms_into_store qsort u s flt)"
    by (cases "room_file s") (simp_all add: load_rooms_into_store_def c)
  have 4: "passes_filter None room"
    by (simp add: passes_filter_def)
  from 1 2 3 4 passes_filter_spec[of f room] show ?thesis by blast
qed

lemma scan_tie_rooms:
  "scan_room ''201:Single:100.00:Available:WiFi'' r =
     r\<lparr>Room.room_number := 201, Room.type := ''Single'', price := 100,
       Room.status := ''Available'', Room.facilities := ''WiFi''\<rparr>"
  "scan_room ''202:Double:100.00:Available:TV'' r =
     r\<lparr>Room.room_number := 202, Room.type := ''Double'', price := 100,
       Room.status := ''Available'', Room.facilities := ''TV''\<rparr>"
  by (simp_all add: scan_room_def room_format_def clib)

lemma listing_of_ties:
  "load_rooms_into_store insertion_qsort zeroed s_ties None =
     [\<lparr>Room.room_number = 202, Room.type = ''Double'', price = 100, Room.status = ''Available'',
       Room.facilities = ''TV''\<rparr>,
      \<lparr>Room.room_number = 201, Room.type = ''Single'', price = 100, Room.status = ''Available'',
       Room.facilities = ''WiFi''\<rparr>]"
  by (simp add: load_rooms_into_store_def s_ties_def tie_rooms_def zeroed_def zero_room_def
        MAX_ROOMS_def passes_filter_def scan_tie_rooms insertion_qsort_def
        compare_rooms_by_price_def)

lemma listing_negative_max:
  "map Room.room_number (load_rooms_into_store insertion_qsort zeroed s_init (Some negative_max))
     = [101, 104, 102, 105, 103]"
  by (simp add: load_rooms_into_store_def s_init_def seed_rooms_def zeroed_def zero_room_def
        MAX_ROOMS_def passes_filter_def negative_max_def scan_seed insertion_qsort_def
        compare_rooms_by_price_def)

lemma listing_of_many:
  "length (load_rooms_into_store insertion_qsort zeroed s_many None) = 100"
proof -
  have "size (mset (load_rooms_into_store insertion_qsort zeroed s_many None)) = 100"
    using room_listing[OF insertion_qsort_contract, of s_many
        "replicate 101 ''101:Single:100.00:Available:WiFi,TV,AC''" zeroed None]
    by (simp add: s_many_def MAX_ROOMS_def passes_filter_def length_read_rooms)
  then show ?thesis by simp
qed

text \<open>
  The claim as stated fails in three ways. With a sorting routine within the promise of
  \<^verbatim>\<open>qsort\<close>, two rooms of equal price are listed against their file order. An
  upper price bound of \<open>-5\<close>, which is not zero, is not applied: all five rooms are
  listed. Of 101 rooms that pass, 100 are listed.
\<close>

theorem room_listing_counterexample:
  "qsort_contract insertion_qsort
   \<and> map Room.room_number (read_rooms (u_rooms zeroed) (\<lambda>r. r) 0 tie_rooms) = [201, 202]
   \<and> map price (read_rooms (u_rooms zeroed) (\<lambda>r. r) 0 tie_rooms) = [100, 100]
   \<and> map Room.room_number (load_rooms_into_store insertion_qsort zeroed s_ties None) = [202, 201]
   \<and> max_price negative_max \<noteq> 0
   \<and> map Room.room_number (load_rooms_into_store insertion_qsort zeroed s_init (Some negative_max))
        = [101, 104, 102, 105, 103]
   \<and> length (filter (passes_filter None) (read_rooms (u_rooms zeroed) (\<lambda>r. r) 0
        (replicate 101 ''101:Single:100.00:Available:WiFi,TV,AC''))) = 101
   \<and> length (load_rooms_into_store insertion_qsort zeroed s_many None) = 100"
proof -
  have 1: "map Room.room_number (read_rooms (u_rooms zeroed) (\<lambda>r. r) 0 tie_rooms) = [201, 202]"
      "map price (read_rooms (u_rooms zeroed) (\<lambda>r. r) 0 tie_rooms) = [100, 100]"
    by (simp_all add: tie_rooms_def scan_tie_rooms)
  have 2: "max_price negative_max \<noteq> 0"
    by (simp add: negative_max_def)
  have 3: "length (filter (passes_filter None) (read_rooms (u_rooms zeroed) (\<lambda>r. r) 0
        (replicate 101 ''101:Single:100.00:Available:WiFi,TV,AC''))) = 101"
    by (simp add: passes_filter_def length_read_rooms)
  from 1 2 3 show ?thesis
    by (simp add: insertion_qsort_contract listing_of_ties listing_negative_max listing_of_many)
qed

theorem room_listing_witness:
  "qsort_contract insertion_qsort
   \<and> mset (load_rooms_into_store insertion_qsort zeroed s_ties None) =
       mset (take MAX_ROOMS
               (filter (passes_filter None) (read_rooms (u_rooms zeroed) (\<lambda>r. r) 0 tie_rooms)))
   \<and> sorted_wrt (\<lambda>a b. price a \<le> price b)
        (load_rooms_into_store insertion_qsort zeroed s_ties None)"
  using room_listing[OF insertion_qsort_contract, of s_ties tie_rooms zeroed None]
  by (simp add: insertion_qsort_contract s_ties_def)

section \<open>Night count and total price (C7)\<close>

subsection \<open>The day number advances with the calendar\<close>











subsection \<open>\<^verbatim>\<open>calculate_duration\<close> on valid dates\<close>







subsection \<open>The price of a confirmed booking\<close>










section \<open>Cancelling a canceled booking (C4)\<close>


















end
